theory Spec2Isabelle
  imports Main "HOL-Library.Word"
begin

section \<open>C strings, \<open>strtok\<close>, \<open>fgets\<close> and \<open>printf\<close>\<close>

text \<open>
  The program under study is \<^verbatim>\<open>fuse-3.11.0/example/passthrough.c\<close>: the FUSE passthrough
  example with an access mediator added to \<^verbatim>\<open>xmp_open\<close>.  A C string is modelled as the
  list of its bytes before the terminating NUL.  Where the C standard leaves the
  behaviour of a statement undefined, the model stops with a \<open>fault\<close>.
\<close>

datatype fault = NullPointer | BufferOverflow | FormatString

abbreviation nl :: char where "nl \<equiv> CHR 0x0A"
abbreviation comma :: char where "comma \<equiv> CHR '',''"

text \<open>The bytes of a buffer that C sees as its string: those before the first NUL.\<close>

definition c_str :: "string \<Rightarrow> string" where
  "c_str s = takeWhile (\<lambda>c. c \<noteq> CHR 0x00) s"

text \<open>
  \<^verbatim>\<open>strtok(s, d)\<close> followed by \<^verbatim>\<open>strtok(NULL, d)\<close> until it returns NULL, for a one-byte
  delimiter set: the maximal non-empty runs of bytes other than \<open>d\<close>, in order.  \<open>cur\<close> is
  the token being scanned.
\<close>

fun strtok_acc :: "char \<Rightarrow> string \<Rightarrow> string \<Rightarrow> string list" where
  "strtok_acc d cur [] = (if cur = [] then [] else [cur])"
| "strtok_acc d cur (c # cs) =
     (if c = d then (if cur = [] then strtok_acc d [] cs else cur # strtok_acc d [] cs)
      else strtok_acc d (cur @ [c]) cs)"

definition strtok_all :: "char \<Rightarrow> string \<Rightarrow> string list" where
  "strtok_all d s = strtok_acc d [] s"

text \<open>A single \<^verbatim>\<open>strtok(s, d)\<close>: the first token, or NULL when there is none.\<close>

definition strtok_first :: "char \<Rightarrow> string \<Rightarrow> string option" where
  "strtok_first d s = (case strtok_all d s of [] \<Rightarrow> None | t # ts \<Rightarrow> Some t)"

text \<open>
  \<^verbatim>\<open>while (fgets(line, sizeof line, file) != NULL)\<close> with \<^verbatim>\<open>char line[128]\<close>: every
  call delivers at most 127 bytes and stops after a newline; at end of file with nothing
  read it returns NULL.  \<open>fgets_acc n cur rest\<close> lists the successive buffers.
\<close>

fun fgets_acc :: "nat \<Rightarrow> string \<Rightarrow> string \<Rightarrow> string list" where
  "fgets_acc n cur [] = (if cur = [] then [] else [cur])"
| "fgets_acc n cur (c # cs) =
     (if c = nl \<or> n \<le> Suc (length cur) then (cur @ [c]) # fgets_acc n [] cs
      else fgets_acc n (cur @ [c]) cs)"

definition fgets_all :: "string \<Rightarrow> string list" where
  "fgets_all content = fgets_acc 127 [] content"

text \<open>
  \<^verbatim>\<open>printf(s)\<close> with the data \<open>s\<close> as the format and no further argument is defined only when
  every \<^verbatim>\<open>%\<close> of \<open>s\<close> starts the directive \<^verbatim>\<open>%%\<close>; any other directive reads an argument
  that was not passed.
\<close>

fun printf_ok :: "string \<Rightarrow> bool" where
  "printf_ok [] = True"
| "printf_ok [c] = (c \<noteq> CHR ''%'')"
| "printf_ok (c # d # cs) =
     (if c = CHR ''%'' then d = CHR ''%'' \<and> printf_ok cs else printf_ok (d # cs))"

section \<open>The credential store and the permission store\<close>

text \<open>
  \<^verbatim>\<open>char credenciais[4][100]\<close> and \<^verbatim>\<open>char acesso[5][100]\<close> are arrays of rows; a row is
  modelled by the C string it holds.  Neither array is initialised, so the strings found
  in rows that the call does not write are inputs of the model.
\<close>

type_synonym rows = "nat \<Rightarrow> string"

text \<open>
  The inner \<^verbatim>\<open>while (token != NULL)\<close> loop, which \<^verbatim>\<open>verifica_credenciais\<close> and
  \<^verbatim>\<open>verifica_acesso\<close> share word for word: \<open>key\<close> is compared with every token, the flag
  \<open>guardar\<close> is raised at the first equal token, and every token seen while the flag is up
  is printed and copied to row \<open>i\<close>.  \<open>nrows\<close> is the number of rows of the array;
  \<^verbatim>\<open>strcpy\<close> beyond the array or beyond the 100 bytes of a row is a fault.  The key is
  \<open>None\<close> for a NULL pointer, which \<^verbatim>\<open>strcmp\<close> dereferences at the first token it meets.
\<close>

fun guarda_tokens ::
  "nat \<Rightarrow> string option \<Rightarrow> string list \<Rightarrow> bool \<Rightarrow> nat \<Rightarrow> rows \<Rightarrow>
   fault + (bool \<times> rows)" where
  "guarda_tokens nrows key [] guardar i dest = Inr (guardar, dest)"
| "guarda_tokens nrows key (token # ts) guardar i dest =
     (case key of
        None \<Rightarrow> Inl NullPointer
      | Some k \<Rightarrow>
          (let guardar' = (guardar \<or> k = token) in
           if guardar' then
             (if \<not> printf_ok token then Inl FormatString
              else if nrows \<le> i \<or> 100 \<le> length token then Inl BufferOverflow
              else guarda_tokens nrows key ts guardar' (Suc i) (dest(i := token)))
           else guarda_tokens nrows key ts guardar' i dest))"

text \<open>
  The outer \<^verbatim>\<open>while (fgets ...)\<close> loop of \<^verbatim>\<open>verifica_credenciais\<close>.  \<open>en\<close> is the value
  of \<^verbatim>\<open>errno\<close> read by \<^verbatim>\<open>return -errno\<close>; no call of the function has failed at that
  point, so it is whatever the thread holds.  \<open>mypass\<close> is dereferenced only by the
  \<^verbatim>\<open>strcmp\<close> of line 356, once the flag is up.
\<close>

fun linhas_credenciais ::
  "string option \<Rightarrow> string option \<Rightarrow> nat \<Rightarrow> bool \<Rightarrow> string list \<Rightarrow> rows \<Rightarrow>
   fault + (int \<times> rows)" where
  "linhas_credenciais myuser mypass en guardar [] credenciais = Inr (0, credenciais)"
| "linhas_credenciais myuser mypass en guardar (line # ls) credenciais =
     (case guarda_tokens 4 myuser (strtok_all comma (c_str line)) guardar 0 credenciais of
        Inl f \<Rightarrow> Inl f
      | Inr (guardar', credenciais') \<Rightarrow>
          if guardar' then
            (case mypass of
               None \<Rightarrow> Inl NullPointer
             | Some p \<Rightarrow>
                 if credenciais' 1 = p then Inr (1, credenciais')
                 else Inr (- int en, credenciais'))
          else linhas_credenciais myuser mypass en guardar' ls credenciais')"

text \<open>
  \<^verbatim>\<open>verifica_credenciais\<close>.  The file is \<open>Inl e\<close> when \<^verbatim>\<open>fopen\<close> fails and sets
  \<^verbatim>\<open>errno\<close> to \<open>e\<close>, and \<open>Inr content\<close> otherwise.  \<open>myuser\<close> and \<open>mypass\<close> come from
  \<^verbatim>\<open>strtok\<close> and may be NULL (\<open>None\<close>); the two \<^verbatim>\<open>printf\<close> of lines 324 and 325 only
  print them (the C library prints \<^verbatim>\<open>(null)\<close> for a NULL \<^verbatim>\<open>%s\<close>), so a NULL is
  dereferenced, if at all, by a \<^verbatim>\<open>strcmp\<close> in the loop.  The result is the returned int
  and the array as the call leaves it.
\<close>

definition verifica_credenciais ::
  "nat + string \<Rightarrow> nat \<Rightarrow> rows \<Rightarrow> string option \<Rightarrow> string option \<Rightarrow> fault + (int \<times> rows)" where
  "verifica_credenciais file en credenciais myuser mypass =
     (case file of
        Inl e \<Rightarrow> Inr (- int e, credenciais)
      | Inr content \<Rightarrow>
          linhas_credenciais myuser mypass en False (fgets_all content) credenciais)"

text \<open>The \<^verbatim>\<open>for (j = 0; j < 5; j++)\<close> scan of \<^verbatim>\<open>verifica_acesso\<close>.\<close>

definition procura_id :: "rows \<Rightarrow> string \<Rightarrow> bool" where
  "procura_id acesso ident = list_ex (\<lambda>j. acesso j = ident) [0, 1, 2, 3, 4]"

fun linhas_acesso ::
  "string \<Rightarrow> string \<Rightarrow> nat \<Rightarrow> bool \<Rightarrow> string list \<Rightarrow> rows \<Rightarrow> fault + int" where
  "linhas_acesso ident path en guardar [] acesso = Inr 0"
| "linhas_acesso ident path en guardar (line # ls) acesso =
     (case guarda_tokens 5 (Some path) (strtok_all comma (c_str line)) guardar 0 acesso of
        Inl f \<Rightarrow> Inl f
      | Inr (guardar', acesso') \<Rightarrow>
          if guardar' then
            (if procura_id acesso' ident then Inr 1 else Inr (- int en))
          else linhas_acesso ident path en guardar' ls acesso')"

text \<open>
  \<^verbatim>\<open>verifica_acesso(id, path)\<close>; \<open>acesso\<close> is what the local array holds on entry.
\<close>

definition verifica_acesso ::
  "nat + string \<Rightarrow> nat \<Rightarrow> rows \<Rightarrow> string \<Rightarrow> string \<Rightarrow> fault + int" where
  "verifica_acesso file en acesso ident path =
     (case file of
        Inl e \<Rightarrow> Inr (- int e)
      | Inr content \<Rightarrow> linhas_acesso ident path en False (fgets_all content) acesso)"

section \<open>The one-time password\<close>

definition charset :: string where
  "charset = ''abcdcv9834543543wedwed4534547234234sa65234csacsacascFE4R4R23423324324xfsd5423434634f43543rt6546546fert54c34f43534543534sdf654654sdffds23423543534544fsdfdseFQWERvD23423423F87dfdf654sdfdsfDSFxcvUYH6RT67234234T54RE33242344234cfghijklxcvcm9876543nxvc7654vcxvopq765432rsJHGFDtuvwxyzAB8765CDEFGHIJK123dfd4567890''"

text \<open>
  \<^verbatim>\<open>sizeof (charset - 1)\<close>: the array decays to a pointer in \<^verbatim>\<open>charset - 1\<close>, so the
  operand of \<^verbatim>\<open>sizeof\<close> is a \<^verbatim>\<open>const char *\<close>; 8 bytes on the 64-bit Linux hosts FUSE 3
  is built for.
\<close>

definition sizeof_char_ptr :: nat where
  "sizeof_char_ptr = 8"

text \<open>
  \<^verbatim>\<open>gera_password(str, size)\<close> with \<open>sz\<close> for \<^verbatim>\<open>size\<close>: \<open>rnd n\<close> is the value of the \<open>n\<close>-th call of \<^verbatim>\<open>rand()\<close>
  (never negative), \<open>str\<close> the string the buffer holds on entry.  The result is the
  string the buffer holds on return.
\<close>

definition gera_password :: "(nat \<Rightarrow> nat) \<Rightarrow> string \<Rightarrow> nat \<Rightarrow> string" where
  "gera_password rnd str sz =
     (if sz \<noteq> 0
      then map (\<lambda>n. charset ! (rnd n mod sizeof_char_ptr)) [0..<sz - 1]
      else str)"

text \<open>
  \<^verbatim>\<open>string_alloc(size)\<close>: \<open>block\<close> is \<open>None\<close> when \<^verbatim>\<open>malloc(size + 1)\<close> returns NULL, and
  the content of the fresh block otherwise.
\<close>

definition string_alloc :: "(nat \<Rightarrow> nat) \<Rightarrow> string option \<Rightarrow> nat \<Rightarrow> string option" where
  "string_alloc rnd block sz =
     (case block of None \<Rightarrow> None | Some s \<Rightarrow> Some (gera_password rnd s sz))"

section \<open>The mediator: \<open>xmp_open\<close>\<close>

text \<open>
  What a call of \<^verbatim>\<open>xmp_open\<close> does to its surroundings, in order.  The prompts are the
  three \<^verbatim>\<open>zenity\<close> entry dialogs, \<open>ErrorDialog\<close> is \<^verbatim>\<open>zenity --error\<close>, \<open>Deliver c\<close> is
  \<^verbatim>\<open>system(c)\<close> on the command built for \<^verbatim>\<open>sms.py\<close>, \<open>HostOpen path flags mode\<close> is the
  host's \<^verbatim>\<open>open\<close>.
\<close>

datatype event =
    PromptUsername
  | PromptPassword
  | CredLookup
  | PermLookup
  | ErrorDialog
  | GeraSenha string
  | Deliver string
  | PromptSenha
  | HostOpen string int "int option"

text \<open>
  Everything a call reads from outside.  The \<open>_buf\<close> fields are the C strings found in
  \<^verbatim>\<open>user\<close>, \<^verbatim>\<open>pass\<close> and \<^verbatim>\<open>recebida\<close> after the \<^verbatim>\<open>read\<close> from the pipe (which does not
  terminate them); a file is \<open>Inl e\<close> when \<^verbatim>\<open>fopen\<close> fails with \<^verbatim>\<open>errno = e\<close>; the
  \<open>errno_\<close> fields are the values \<^verbatim>\<open>errno\<close> has at the three kinds of \<^verbatim>\<open>return -errno\<close>
  that follow no failed call; a host primitive yields its return value and the
  \<^verbatim>\<open>errno\<close> it leaves.
\<close>

record world =
  user_buf :: string
  pass_buf :: string
  recebida_buf :: string
  cred_file :: "nat + string"
  perm_file :: "nat + string"
  credenciais0 :: rows
  acesso0 :: rows
  errno_cred :: nat
  errno_perm :: nat
  errno_deny :: nat
  rand_seq :: "nat \<Rightarrow> nat"
  senha_block :: "string option"
  init_block :: "string option"
  sys_open :: "string \<Rightarrow> int \<Rightarrow> int option \<Rightarrow> int \<times> nat"

record open_result =
  trace :: "event list"
  ret :: "fault + int"
  fh :: "64 word option"

definition credential_path :: string where
  "credential_path = ''/Teste/autenticacao.txt''"

definition sms_command :: string where
  "sms_command = ''cd | python3 /home/parallels/Desktop/temporario/sms.py ''"

text \<open>\<^verbatim>\<open>strcat(dst, src)\<close> into a block of \<open>cap\<close> bytes.\<close>

definition strcat_c :: "nat \<Rightarrow> string \<Rightarrow> string \<Rightarrow> fault + string" where
  "strcat_c cap dst src =
     (if cap \<le> length dst + length src then Inl BufferOverflow else Inr (dst @ src))"

definition bind_fault :: "fault + 'a \<Rightarrow> ('a \<Rightarrow> fault + 'b) \<Rightarrow> fault + 'b" where
  "bind_fault m k = (case m of Inl f \<Rightarrow> Inl f | Inr x \<Rightarrow> k x)"

text \<open>
  Lines 483 to 488: \<^verbatim>\<open>init = malloc(100)\<close> is not cleared, so the four \<^verbatim>\<open>strcat\<close> append
  to whatever string the block holds.
\<close>

definition monta_comando :: "string option \<Rightarrow> string \<Rightarrow> string option \<Rightarrow> fault + string" where
  "monta_comando init address senha =
     (case init of
        None \<Rightarrow> Inl NullPointer
      | Some g \<Rightarrow>
          bind_fault (strcat_c 100 g sms_command) (\<lambda>a.
          bind_fault (strcat_c 100 a address) (\<lambda>b.
          bind_fault (strcat_c 100 b '' '') (\<lambda>c.
          (case senha of None \<Rightarrow> Inl NullPointer | Some s \<Rightarrow> strcat_c 100 c s)))))"

text \<open>Lines 526 to 531: the host open and the binding of the handle.\<close>

definition abre :: "world \<Rightarrow> string \<Rightarrow> int \<Rightarrow> event list \<Rightarrow> open_result" where
  "abre w path flags t =
     (let (res, e) = sys_open w path flags None;
          t' = t @ [HostOpen path flags None]
      in if res = - 1 then \<lparr>trace = t', ret = Inr (- int e), fh = None\<rparr>
         else \<lparr>trace = t', ret = Inr 0, fh = Some (word_of_int res)\<rparr>)"

text \<open>
  Lines 477 to 518, the branch \<^verbatim>\<open>autenticado == 1\<close>: the password is generated, handed
  to the delivery command, asked back and compared; then the test on the credential
  file.
\<close>

definition segundo_fator ::
  "world \<Rightarrow> string \<Rightarrow> int \<Rightarrow> string option \<Rightarrow> rows \<Rightarrow> event list \<Rightarrow> open_result" where
  "segundo_fator w path flags myuser credenciais t =
     (let senha = string_alloc (rand_seq w) (senha_block w) 7;
          t1 = t @ (case senha of None \<Rightarrow> [] | Some s \<Rightarrow> [GeraSenha s])
      in case monta_comando (init_block w) (credenciais 2) senha of
           Inl f \<Rightarrow> \<lparr>trace = t1, ret = Inl f, fh = None\<rparr>
         | Inr cmd \<Rightarrow>
             if \<not> printf_ok (credenciais 2)
             then \<lparr>trace = t1 @ [Deliver cmd], ret = Inl FormatString, fh = None\<rparr>
             else
               (let t2 = t1 @ [Deliver cmd, PromptSenha] in
                case (strtok_first nl (recebida_buf w), senha) of
                  (Some myrecebida, Some s) \<Rightarrow>
                    if myrecebida \<noteq> s
                    then \<lparr>trace = t2, ret = Inr (- int (errno_deny w)), fh = None\<rparr>
                    else if path = credential_path
                    then (case myuser of
                            None \<Rightarrow> \<lparr>trace = t2, ret = Inl NullPointer, fh = None\<rparr>
                          | Some u \<Rightarrow>
                              if u \<noteq> ''root''
                              then \<lparr>trace = t2, ret = Inr (- int (errno_deny w)), fh = None\<rparr>
                              else abre w path flags t2)
                    else abre w path flags t2
                | _ \<Rightarrow> \<lparr>trace = t2, ret = Inl NullPointer, fh = None\<rparr>))"

text \<open>
  \<^verbatim>\<open>xmp_open(path, fi)\<close> with \<open>flags\<close> for \<^verbatim>\<open>fi->flags\<close>.  Both lookups run before any
  result is tested; \<^verbatim>\<open>credenciais[3]\<close> is printed as a format in between.
\<close>

definition xmp_open :: "world \<Rightarrow> string \<Rightarrow> int \<Rightarrow> open_result" where
  "xmp_open w path flags =
     (let myuser = strtok_first nl (user_buf w);
          mypass = strtok_first nl (pass_buf w);
          t1 = [PromptUsername, PromptPassword, CredLookup]
      in case verifica_credenciais (cred_file w) (errno_cred w) (credenciais0 w) myuser mypass of
           Inl f \<Rightarrow> \<lparr>trace = t1, ret = Inl f, fh = None\<rparr>
         | Inr (autenticado, credenciais) \<Rightarrow>
             if \<not> printf_ok (credenciais 3)
             then \<lparr>trace = t1, ret = Inl FormatString, fh = None\<rparr>
             else
               (case verifica_acesso (perm_file w) (errno_perm w) (acesso0 w)
                       (credenciais 3) path of
                  Inl f \<Rightarrow> \<lparr>trace = t1 @ [PermLookup], ret = Inl f, fh = None\<rparr>
                | Inr access \<Rightarrow>
                    if access \<noteq> 1
                    then \<lparr>trace = t1 @ [PermLookup, ErrorDialog],
                          ret = Inr (- int (errno_deny w)), fh = None\<rparr>
                    else if autenticado = 1
                    then segundo_fator w path flags myuser credenciais (t1 @ [PermLookup])
                    else \<lparr>trace = t1 @ [PermLookup],
                          ret = Inr (- int (errno_deny w)), fh = None\<rparr>))"

section \<open>The passthrough operations\<close>

text \<open>
  A host primitive is given by the pair of its return value and the \<^verbatim>\<open>errno\<close> it leaves.
\<close>

definition xmp_getattr :: "int \<times> nat \<Rightarrow> int" where
  "xmp_getattr lstat = (let (res, e) = lstat in if res = - 1 then - int e else 0)"

text \<open>
  \<^verbatim>\<open>xmp_create\<close>: \<^verbatim>\<open>open(path, fi->flags, mode)\<close> and nothing else.
\<close>

definition xmp_create :: "world \<Rightarrow> string \<Rightarrow> int \<Rightarrow> int \<Rightarrow> open_result" where
  "xmp_create w path flags mode =
     (let (res, e) = sys_open w path flags (Some mode);
          t = [HostOpen path flags (Some mode)]
      in if res = - 1 then \<lparr>trace = t, ret = Inr (- int e), fh = None\<rparr>
         else \<lparr>trace = t, ret = Inr 0, fh = Some (word_of_int res)\<rparr>)"

text \<open>
  \<^verbatim>\<open>fd = fi->fh\<close> stores a \<^verbatim>\<open>uint64_t\<close> in an \<^verbatim>\<open>int\<close>: the low 32 bits, read as signed.
\<close>

definition fd_of_fh :: "64 word \<Rightarrow> int" where
  "fd_of_fh h = sint (ucast h :: 32 word)"

text \<open>
  \<^verbatim>\<open>xmp_read\<close> and \<^verbatim>\<open>xmp_write\<close>: \<open>fi\<close> is \<open>None\<close> for a NULL \<^verbatim>\<open>fi\<close>, else the handle;
  \<open>host_open\<close> is the result of the \<^verbatim>\<open>open\<close> made when \<^verbatim>\<open>fi\<close> is NULL, \<open>en\<close> the \<^verbatim>\<open>errno\<close>
  on entry, \<open>io fd\<close> the result of \<^verbatim>\<open>pread\<close> or \<^verbatim>\<open>pwrite\<close> on descriptor \<open>fd\<close>, as
  stored in the \<^verbatim>\<open>int res\<close>.
\<close>

definition xmp_read :: "64 word option \<Rightarrow> int \<times> nat \<Rightarrow> nat \<Rightarrow> (int \<Rightarrow> int \<times> nat) \<Rightarrow> int" where
  "xmp_read fi host_open en pread =
     (let (fd, e) = (case fi of None \<Rightarrow> host_open | Some h \<Rightarrow> (fd_of_fh h, en))
      in if fd = - 1 then - int e
         else (let (res, e') = pread fd in if res = - 1 then - int e' else res))"

definition xmp_write :: "64 word option \<Rightarrow> int \<times> nat \<Rightarrow> nat \<Rightarrow> (int \<Rightarrow> int \<times> nat) \<Rightarrow> int" where
  "xmp_write fi host_open en pwrite =
     (let (fd, e) = (case fi of None \<Rightarrow> host_open | Some h \<Rightarrow> (fd_of_fh h, en))
      in if fd = - 1 then - int e
         else (let (res, e') = pwrite fd in if res = - 1 then - int e' else res))"

text \<open>
  \<^verbatim>\<open>xmp_release\<close>: \<^verbatim>\<open>close(fi->fh); return 0;\<close>.  The result of \<^verbatim>\<open>close\<close> is not
  looked at.
\<close>

definition xmp_release :: "64 word \<Rightarrow> (int \<Rightarrow> int \<times> nat) \<Rightarrow> int" where
  "xmp_release h close = (let r = close (fd_of_fh h) in 0)"

text \<open>
  The other entries of \<^verbatim>\<open>xmp_oper\<close>, each with the result of the primitive it calls as
  argument.  \<^verbatim>\<open>xmp_init\<close> sets the cache timeouts and returns no status.  Twelve of them
  have the body of \<open>xmp_getattr\<close> around another primitive: \<^verbatim>\<open>access\<close>, \<^verbatim>\<open>mkdir\<close>,
  \<^verbatim>\<open>unlink\<close>, \<^verbatim>\<open>rmdir\<close>, \<^verbatim>\<open>symlink\<close>, \<^verbatim>\<open>link\<close>, \<^verbatim>\<open>chmod\<close>, \<^verbatim>\<open>lchown\<close>,
  \<^verbatim>\<open>utimensat\<close>, \<^verbatim>\<open>statvfs\<close>, \<^verbatim>\<open>lsetxattr\<close> and \<^verbatim>\<open>lremovexattr\<close>.
\<close>

definition xmp_access :: "int \<times> nat \<Rightarrow> int" where
  "xmp_access access = (let (res, e) = access in if res = - 1 then - int e else 0)"

definition xmp_mkdir :: "int \<times> nat \<Rightarrow> int" where
  "xmp_mkdir mkdir = (let (res, e) = mkdir in if res = - 1 then - int e else 0)"

definition xmp_unlink :: "int \<times> nat \<Rightarrow> int" where
  "xmp_unlink unlink = (let (res, e) = unlink in if res = - 1 then - int e else 0)"

definition xmp_rmdir :: "int \<times> nat \<Rightarrow> int" where
  "xmp_rmdir rmdir = (let (res, e) = rmdir in if res = - 1 then - int e else 0)"

definition xmp_symlink :: "int \<times> nat \<Rightarrow> int" where
  "xmp_symlink symlink = (let (res, e) = symlink in if res = - 1 then - int e else 0)"

definition xmp_link :: "int \<times> nat \<Rightarrow> int" where
  "xmp_link link = (let (res, e) = link in if res = - 1 then - int e else 0)"

definition xmp_chmod :: "int \<times> nat \<Rightarrow> int" where
  "xmp_chmod chmod = (let (res, e) = chmod in if res = - 1 then - int e else 0)"

definition xmp_chown :: "int \<times> nat \<Rightarrow> int" where
  "xmp_chown lchown = (let (res, e) = lchown in if res = - 1 then - int e else 0)"

definition xmp_utimens :: "int \<times> nat \<Rightarrow> int" where
  "xmp_utimens utimensat = (let (res, e) = utimensat in if res = - 1 then - int e else 0)"

definition xmp_statfs :: "int \<times> nat \<Rightarrow> int" where
  "xmp_statfs statvfs = (let (res, e) = statvfs in if res = - 1 then - int e else 0)"

definition xmp_setxattr :: "int \<times> nat \<Rightarrow> int" where
  "xmp_setxattr lsetxattr = (let (res, e) = lsetxattr in if res = - 1 then - int e else 0)"

definition xmp_removexattr :: "int \<times> nat \<Rightarrow> int" where
  "xmp_removexattr lremovexattr =
     (let (res, e) = lremovexattr in if res = - 1 then - int e else 0)"

text \<open>
  \<^verbatim>\<open>xmp_readlink\<close> terminates the buffer and returns 0, not the length.
  \<^verbatim>\<open>xmp_getxattr\<close> and \<^verbatim>\<open>xmp_listxattr\<close> return \<^verbatim>\<open>res\<close>, the size the primitive reports.
\<close>

definition xmp_readlink :: "int \<times> nat \<Rightarrow> int" where
  "xmp_readlink readlink = (let (res, e) = readlink in if res = - 1 then - int e else 0)"

definition xmp_getxattr :: "int \<times> nat \<Rightarrow> int" where
  "xmp_getxattr lgetxattr = (let (res, e) = lgetxattr in if res = - 1 then - int e else res)"

definition xmp_listxattr :: "int \<times> nat \<Rightarrow> int" where
  "xmp_listxattr llistxattr = (let (res, e) = llistxattr in if res = - 1 then - int e else res)"

text \<open>
  \<^verbatim>\<open>xmp_readdir\<close>: \<open>opendir\<close> is \<open>Inl e\<close> when \<^verbatim>\<open>opendir\<close> returns NULL with \<^verbatim>\<open>errno = e\<close>.
  The entries go to the filler; the result of \<^verbatim>\<open>closedir\<close> is not looked at.
\<close>

definition xmp_readdir :: "nat + unit \<Rightarrow> int \<times> nat \<Rightarrow> int" where
  "xmp_readdir opendir closedir =
     (case opendir of Inl e \<Rightarrow> - int e | Inr dp \<Rightarrow> (let r = closedir in 0))"

text \<open>
  \<^verbatim>\<open>xmp_mknod\<close>: \<open>isreg\<close> and \<open>isfifo\<close> are the values of \<^verbatim>\<open>S_ISREG(mode)\<close> and
  \<^verbatim>\<open>S_ISFIFO(mode)\<close>; a regular file is created by \<^verbatim>\<open>open\<close> and closed at once.
\<close>

definition xmp_mknod ::
  "bool \<Rightarrow> bool \<Rightarrow> int \<times> nat \<Rightarrow> (int \<Rightarrow> int \<times> nat) \<Rightarrow> int \<times> nat \<Rightarrow> int \<times> nat \<Rightarrow> int" where
  "xmp_mknod isreg isfifo host_open close mkfifo mknod =
     (let (res, e) =
            (if isreg then (if 0 \<le> fst host_open then close (fst host_open) else host_open)
             else if isfifo then mkfifo
             else mknod)
      in if res = - 1 then - int e else 0)"

text \<open>
  \<^verbatim>\<open>xmp_rename\<close>: \<open>einval\<close> is the value of the macro \<^verbatim>\<open>EINVAL\<close>.
\<close>

definition xmp_rename :: "int \<Rightarrow> 32 word \<Rightarrow> int \<times> nat \<Rightarrow> int" where
  "xmp_rename einval flags rename =
     (if flags \<noteq> 0 then - einval
      else (let (res, e) = rename in if res = - 1 then - int e else 0))"

definition xmp_truncate :: "64 word option \<Rightarrow> int \<times> nat \<Rightarrow> (int \<Rightarrow> int \<times> nat) \<Rightarrow> int" where
  "xmp_truncate fi host_truncate host_ftruncate =
     (let (res, e) =
            (case fi of Some h \<Rightarrow> host_ftruncate (fd_of_fh h) | None \<Rightarrow> host_truncate)
      in if res = - 1 then - int e else 0)"

text \<open>\<^verbatim>\<open>xmp_fsync\<close> is a stub: it calls nothing.\<close>

definition xmp_fsync :: int where
  "xmp_fsync = 0"

text \<open>
  \<^verbatim>\<open>xmp_fallocate\<close>: \<open>eopnotsupp\<close> is the value of the macro \<^verbatim>\<open>EOPNOTSUPP\<close>;
  \<open>posix_fallocate fd\<close> is the value \<^verbatim>\<open>posix_fallocate\<close> returns, 0 or an error number
  (it does not use \<^verbatim>\<open>errno\<close>).
\<close>

definition xmp_fallocate ::
  "int \<Rightarrow> int \<Rightarrow> 64 word option \<Rightarrow> int \<times> nat \<Rightarrow> nat \<Rightarrow> (int \<Rightarrow> int) \<Rightarrow> int" where
  "xmp_fallocate eopnotsupp mode fi host_open en posix_fallocate =
     (if mode \<noteq> 0 then - eopnotsupp
      else
        (let (fd, e) = (case fi of None \<Rightarrow> host_open | Some h \<Rightarrow> (fd_of_fh h, en))
         in if fd = - 1 then - int e else - posix_fallocate fd))"

section \<open>Reading the stores: what the loops compute\<close>

text \<open>
  The two loops are described by the line they stop at and the tokens they copy.
  \<open>tem_token key line\<close>: some token of the line equals \<open>key\<close>.  \<open>linha_de key lines\<close>: the
  first such line.  \<open>copiados key line\<close>: the tokens of the line from the first one equal
  to \<open>key\<close> onwards.  \<open>cabem nrows toks\<close>: the tokens can be printed and copied into
  \<open>nrows\<close> rows of 100 bytes.  \<open>preenche dest i toks\<close>: the array \<open>dest\<close> with \<open>toks\<close>
  written from row \<open>i\<close> on.
\<close>

definition token_ok :: "string \<Rightarrow> bool" where
  "token_ok t = (printf_ok t \<and> length t < 100)"

definition cabem :: "nat \<Rightarrow> string list \<Rightarrow> bool" where
  "cabem nrows toks = (length toks \<le> nrows \<and> list_all token_ok toks)"

definition preenche :: "rows \<Rightarrow> nat \<Rightarrow> string list \<Rightarrow> rows" where
  "preenche dest i toks =
     (\<lambda>j. if i \<le> j \<and> j < i + length toks then toks ! (j - i) else dest j)"

definition tem_token :: "string \<Rightarrow> string \<Rightarrow> bool" where
  "tem_token key line = (key \<in> set (strtok_all comma (c_str line)))"

definition copiados :: "string \<Rightarrow> string \<Rightarrow> string list" where
  "copiados key line = dropWhile (\<lambda>t. t \<noteq> key) (strtok_all comma (c_str line))"

definition linha_de :: "string \<Rightarrow> string list \<Rightarrow> string option" where
  "linha_de key lines = find (tem_token key) lines"

text \<open>
  \<open>registo_de file cred u\<close>: the array as the lookup for \<open>u\<close> leaves it when it stops at
  a line and the copy is defined.  \<open>autorizado file acesso ident path\<close>: the permission
  lookup stops at a line, the copy is defined and \<open>ident\<close> is in one of the five rows.
  \<open>bem_formado nrows key content\<close>: the line the loop stops at, if any, can be copied.
  \<open>resultado\<close> shows the returned int with rows 0 to 3.
\<close>

definition registo_de :: "nat + string \<Rightarrow> rows \<Rightarrow> string \<Rightarrow> rows option" where
  "registo_de file cred u =
     (case file of
        Inl e \<Rightarrow> None
      | Inr content \<Rightarrow>
          (case linha_de u (fgets_all content) of
             None \<Rightarrow> None
           | Some l \<Rightarrow>
               if cabem 4 (copiados u l) then Some (preenche cred 0 (copiados u l)) else None))"

definition autorizado :: "nat + string \<Rightarrow> rows \<Rightarrow> string \<Rightarrow> string \<Rightarrow> bool" where
  "autorizado file acesso ident path =
     (case file of
        Inl e \<Rightarrow> False
      | Inr content \<Rightarrow>
          (case linha_de path (fgets_all content) of
             None \<Rightarrow> False
           | Some l \<Rightarrow>
               cabem 5 (copiados path l) \<and>
               procura_id (preenche acesso 0 (copiados path l)) ident))"

definition bem_formado :: "nat \<Rightarrow> string \<Rightarrow> string \<Rightarrow> bool" where
  "bem_formado nrows key content =
     (case linha_de key (fgets_all content) of
        None \<Rightarrow> True
      | Some l \<Rightarrow> cabem nrows (copiados key l))"

definition resultado :: "fault + (int \<times> rows) \<Rightarrow> fault + (int \<times> string list)" where
  "resultado r = (case r of Inl f \<Rightarrow> Inl f | Inr (x, c) \<Rightarrow> Inr (x, [c 0, c 1, c 2, c 3]))"

text \<open>The events of the second factor, and the host open.\<close>

fun otp_event :: "event \<Rightarrow> bool" where
  "otp_event (GeraSenha s) = True"
| "otp_event (Deliver c) = True"
| "otp_event e = False"

fun host_event :: "event \<Rightarrow> bool" where
  "host_event (HostOpen p f m) = True"
| "host_event e = False"

text \<open>
  The two lookups as \<open>xmp_open\<close> makes them: \<open>lookup_cred w\<close> is the call of line 461,
  \<open>autenticado_de w\<close> the value it assigns to \<^verbatim>\<open>autenticado\<close>, and \<open>lookup_perm w path\<close> the
  value the call of line 468 assigns to \<^verbatim>\<open>access\<close>, \<open>None\<close> when the call is not reached.
\<close>

definition lookup_cred :: "world \<Rightarrow> fault + (int \<times> rows)" where
  "lookup_cred w =
     verifica_credenciais (cred_file w) (errno_cred w) (credenciais0 w)
       (strtok_first nl (user_buf w)) (strtok_first nl (pass_buf w))"

definition autenticado_de :: "world \<Rightarrow> fault + int" where
  "autenticado_de w =
     (case lookup_cred w of Inl f \<Rightarrow> Inl f | Inr (autenticado, c) \<Rightarrow> Inr autenticado)"

definition lookup_perm :: "world \<Rightarrow> string \<Rightarrow> (fault + int) option" where
  "lookup_perm w path =
     (case lookup_cred w of
        Inl f \<Rightarrow> None
      | Inr (autenticado, credenciais) \<Rightarrow>
          if printf_ok (credenciais 3)
          then Some (verifica_acesso (perm_file w) (errno_perm w) (acesso0 w)
                       (credenciais 3) path)
          else None)"

text \<open>Letters of both cases and digits.\<close>

definition alfanumerico :: "char \<Rightarrow> bool" where
  "alfanumerico c =
     (c \<in> set ''abcdefghijklmnopqrstuvwxyzABCDEFGHIJKLMNOPQRSTUVWXYZ0123456789'')"

section \<open>The stores as the specification words them\<close>

text \<open>
  For comparison with the code only.  The specification splits a line at every comma
  into fields in fixed positions, the trailing newline stripped (\<open>spec_fields\<close>); its
  credential lookup looks for the username in field 0 (\<open>spec_lookup_found\<close>); its
  \<open>authorize\<close> grants when some line with the path in field 0 has the user-id among its
  at most five fields (\<open>spec_authorize\<close>).
\<close>

fun campos_acc :: "string \<Rightarrow> string \<Rightarrow> string list" where
  "campos_acc cur [] = [cur]"
| "campos_acc cur (c # cs) =
     (if c = comma then cur # campos_acc [] cs else campos_acc (cur @ [c]) cs)"

definition spec_fields :: "string \<Rightarrow> string list" where
  "spec_fields line = campos_acc [] (takeWhile (\<lambda>c. c \<noteq> nl) line)"

definition spec_lookup_found :: "string \<Rightarrow> string \<Rightarrow> bool" where
  "spec_lookup_found content u =
     list_ex (\<lambda>l. case spec_fields l of [] \<Rightarrow> False | f0 # fs \<Rightarrow> f0 = u) (fgets_all content)"

definition spec_authorize :: "string \<Rightarrow> string \<Rightarrow> string \<Rightarrow> bool" where
  "spec_authorize content path uid =
     list_ex (\<lambda>l. case spec_fields l of [] \<Rightarrow> False
                  | f0 # fs \<Rightarrow> f0 = path \<and> uid \<in> set (take 5 (f0 # fs)))
       (fgets_all content)"

text \<open>
  A credential record of the specification for user \<open>u\<close> with password \<open>p\<close>: a line
  with \<open>u\<close> in field 0 and \<open>p\<close> in field 1.
\<close>

definition spec_credential :: "string \<Rightarrow> string \<Rightarrow> string \<Rightarrow> bool" where
  "spec_credential content u p =
     list_ex (\<lambda>l. case spec_fields l of f0 # f1 # fs \<Rightarrow> f0 = u \<and> f1 = p | _ \<Rightarrow> False)
       (fgets_all content)"

text \<open>
  Some line of the store has \<open>path\<close> in field 0.
\<close>

definition spec_path_present :: "string \<Rightarrow> string \<Rightarrow> bool" where
  "spec_path_present content path =
     list_ex (\<lambda>l. case spec_fields l of [] \<Rightarrow> False | f0 # fs \<Rightarrow> f0 = path)
       (fgets_all content)"

text \<open>
  The error convention of the specification for a primitive with result \<open>r\<close>: the negated
  error code when it indicates failure, \<open>ok\<close> otherwise.
\<close>

definition spec_convention :: "int \<times> nat \<Rightarrow> int \<Rightarrow> int" where
  "spec_convention r ok = (if fst r = - 1 then - int (snd r) else ok)"

section \<open>Concrete calls\<close>

text \<open>
  The first scenario of the specification: the credential file holds
  \<^verbatim>\<open>alice,pw,addr,7\<close>, the permission file \<^verbatim>\<open>/m/x,7\<close>, both lines ended by a newline;
  the user types \<^verbatim>\<open>alice\<close>, \<^verbatim>\<open>pw\<close> and the password sent, \<^verbatim>\<open>rand()\<close> returns 0 every time,
  memory not yet written holds empty strings, \<^verbatim>\<open>errno\<close> is 0 and the host opens the file
  as descriptor 3.
\<close>

definition vazio :: rows where
  "vazio j = []"

definition rand_zero :: "nat \<Rightarrow> nat" where
  "rand_zero n = 0"

definition abre_3 :: "string \<Rightarrow> int \<Rightarrow> int option \<Rightarrow> int \<times> nat" where
  "abre_3 p f m = (3, 0)"

definition cred_alice :: string where
  "cred_alice = ''alice,pw,addr,7'' @ [nl]"

definition perm_mx :: string where
  "perm_mx = ''/m/x,7'' @ [nl]"

definition mundo_alice :: world where
  "mundo_alice =
     \<lparr>user_buf = ''alice'' @ [nl], pass_buf = ''pw'' @ [nl],
      recebida_buf = ''aaaaaa'' @ [nl],
      cred_file = Inr cred_alice,
      perm_file = Inr perm_mx,
      credenciais0 = vazio, acesso0 = vazio,
      errno_cred = 0, errno_perm = 0, errno_deny = 0,
      rand_seq = rand_zero, senha_block = Some [], init_block = Some [],
      sys_open = abre_3\<rparr>"

text \<open>Other store contents used below.\<close>

definition cred_bob_alice :: string where
  "cred_bob_alice = ''bob,alice,pw,addr,7'' @ [nl]"

definition cred_tres :: string where
  "cred_tres =
     ''bob,bpw,baddr,9'' @ [nl] @ ''alice,pw,addr,7'' @ [nl] @ ''alice,other,addr2,8'' @ [nl]"

definition cred_quase :: string where
  "cred_quase = ''Alice,pw, alice ,7'' @ [nl]"

definition perm_duas_linhas :: string where
  "perm_duas_linhas = ''/m/x,7'' @ [nl] @ ''/m/x,8''"

definition perm_segundo_campo :: string where
  "perm_segundo_campo = ''/m/y,/m/x,7''"


definition perm_x9 :: string where
  "perm_x9 = ''/m/x,9'' @ [nl]"

definition perm_my :: string where
  "perm_my = ''/m/y,7'' @ [nl]"

text \<open>
  Variants of the first scenario: a wrong password; the password and the address of
  \<^verbatim>\<open>alice\<close> typed as username and password; the credential line of \<^verbatim>\<open>bob\<close> whose
  password is \<^verbatim>\<open>alice\<close>; the permission line of \<^verbatim>\<open>/m/y\<close> that lists \<^verbatim>\<open>/m/x\<close> after it.
  Then an unknown user who leaves the password empty; a \<^verbatim>\<open>posix_fallocate\<close> that returns
  \<^verbatim>\<open>ENOSPC\<close>; a \<^verbatim>\<open>close\<close> that fails with \<^verbatim>\<open>EBADF\<close>; and a \<^verbatim>\<open>pread\<close> that delivers 5
  bytes on descriptor 3 and fails elsewhere.
\<close>

definition mundo_senha_errada :: world where
  "mundo_senha_errada = mundo_alice\<lparr>pass_buf := ''zz'' @ [nl]\<rparr>"

definition mundo_pw_addr :: world where
  "mundo_pw_addr = mundo_alice\<lparr>user_buf := ''pw'' @ [nl], pass_buf := ''addr'' @ [nl]\<rparr>"

definition mundo_bob_alice :: world where
  "mundo_bob_alice = mundo_alice\<lparr>cred_file := Inr cred_bob_alice\<rparr>"

definition perm_my_mx :: string where
  "perm_my_mx = ''/m/y,/m/x,7'' @ [nl]"

definition mundo_my_mx :: world where
  "mundo_my_mx = mundo_alice\<lparr>perm_file := Inr perm_my_mx\<rparr>"

definition mundo_sem_senha :: world where
  "mundo_sem_senha = mundo_alice\<lparr>user_buf := ''mallory'' @ [nl], pass_buf := [nl]\<rparr>"

definition fallocate_28 :: "int \<Rightarrow> int" where
  "fallocate_28 fd = 28"

definition close_falha :: "int \<Rightarrow> int \<times> nat" where
  "close_falha fd = (- 1, 9)"

definition pread_5 :: "int \<Rightarrow> int \<times> nat" where
  "pread_5 fd = (if fd = 3 then (5, 0) else (- 1, 9))"

section \<open>Lemmas on the token loop and the line loops\<close>

lemma guarda_tokens_absent:
  "key \<notin> set ts \<Longrightarrow> guarda_tokens n (Some key) ts False i dest = Inr (False, dest)"
  by (induction ts arbitrary: i dest) auto

lemma guarda_tokens_first:
  "key \<in> set ts \<Longrightarrow>
   guarda_tokens n (Some key) ts False i dest =
   guarda_tokens n (Some key) (dropWhile (\<lambda>t. t \<noteq> key) ts) True i dest"
  by (induction ts arbitrary: i dest) auto

lemma guarda_tokens_True:
  "guarda_tokens n (Some key) ts True i dest = Inr (g, d) \<Longrightarrow> g"
  by (induction ts arbitrary: i dest) (auto split: if_splits)

lemma preenche_Nil: "preenche dest i [] = dest"
  by (rule ext) (auto simp: preenche_def)

lemma preenche_Cons: "preenche (dest(i := t)) (Suc i) ts = preenche dest i (t # ts)"
  by (rule ext) (auto simp: preenche_def nth_Cons')

lemma guarda_tokens_copy:
  "list_all token_ok ts \<Longrightarrow> i + length ts \<le> n \<Longrightarrow>
   guarda_tokens n (Some key) ts True i dest = Inr (True, preenche dest i ts)"
proof (induction ts arbitrary: i dest)
  case Nil
  show ?case by (simp add: preenche_Nil)
next
  case (Cons t ts)
  then show ?case by (simp add: token_ok_def preenche_Cons)
qed

lemma guarda_tokens_Inr:
  "guarda_tokens n (Some key) ts True i dest = Inr r \<Longrightarrow>
   list_all token_ok ts \<and> (ts = [] \<or> i + length ts \<le> n)"
proof (induction ts arbitrary: i dest)
  case Nil
  show ?case by simp
next
  case (Cons t ts)
  from Cons.prems have ok: "printf_ok t" "i < n" "length t < 100"
    and rest: "guarda_tokens n (Some key) ts True (Suc i) (dest(i := t)) = Inr r"
    by (auto split: if_splits)
  from Cons.IH [OF rest] ok show ?case
    by (auto simp: token_ok_def)
qed

lemma linhas_acesso_absent:
  "\<forall>l \<in> set ls. \<not> tem_token path l \<Longrightarrow>
   linhas_acesso ident path en False ls acesso = Inr 0"
  by (induction ls) (auto simp: tem_token_def guarda_tokens_absent)

lemma linhas_acesso_found:
  "linha_de path ls = Some l \<Longrightarrow>
   linhas_acesso ident path en False ls acesso =
   (case guarda_tokens 5 (Some path) (copiados path l) True 0 acesso of
      Inl f \<Rightarrow> Inl f
    | Inr (g, acesso') \<Rightarrow> if procura_id acesso' ident then Inr 1 else Inr (- int en))"
proof (induction ls)
  case Nil
  then show ?case by (simp add: linha_de_def)
next
  case (Cons a ls)
  show ?case
  proof (cases "tem_token path a")
    case True
    with Cons.prems have "a = l" by (simp add: linha_de_def)
    from True have "path \<in> set (strtok_all comma (c_str a))"
      by (simp add: tem_token_def)
    from guarda_tokens_first [OF this] \<open>a = l\<close> show ?thesis
      by (auto simp: copiados_def split: sum.splits prod.splits dest: guarda_tokens_True)
  next
    case False
    with Cons.prems have "linha_de path ls = Some l" by (simp add: linha_de_def)
    from False have "path \<notin> set (strtok_all comma (c_str a))"
      by (simp add: tem_token_def)
    with Cons.IH [OF \<open>linha_de path ls = Some l\<close>] show ?thesis
      by (simp add: guarda_tokens_absent)
  qed
qed

lemma linha_de_None: "linha_de key ls = None \<longleftrightarrow> (\<forall>l \<in> set ls. \<not> tem_token key l)"
  by (auto simp: linha_de_def find_None_iff)

lemma linha_de_first:
  assumes "i < length ls" and "tem_token key (ls ! i)"
      and "\<forall>j<i. \<not> tem_token key (ls ! j)"
  shows "linha_de key ls = Some (ls ! i)"
  using assms by (auto simp: linha_de_def find_Some_iff)


lemma guarda_tokens_cabem:
  "cabem n ts \<Longrightarrow> guarda_tokens n (Some key) ts True 0 dest = Inr (True, preenche dest 0 ts)"
  by (simp add: cabem_def guarda_tokens_copy)

lemma guarda_tokens_not_cabem:
  "\<not> cabem n ts \<Longrightarrow> \<exists>f. guarda_tokens n (Some key) ts True 0 dest = Inl f"
proof (cases "guarda_tokens n (Some key) ts True 0 dest")
  case (Inl f)
  then show ?thesis by blast
next
  case (Inr r)
  from guarda_tokens_Inr [OF this] have "cabem n ts"
    by (auto simp: cabem_def)
  moreover assume "\<not> cabem n ts"
  ultimately show ?thesis by contradiction
qed

lemma linhas_acesso_cases:
  "linhas_acesso ident path en False ls acesso =
     (case linha_de path ls of
        None \<Rightarrow> Inr 0
      | Some l \<Rightarrow>
          if cabem 5 (copiados path l)
          then (if procura_id (preenche acesso 0 (copiados path l)) ident then Inr 1
                else Inr (- int en))
          else linhas_acesso ident path en False ls acesso)"
proof (cases "linha_de path ls")
  case None
  then have "\<forall>l \<in> set ls. \<not> tem_token path l" by (simp add: linha_de_None)
  with None show ?thesis by (simp add: linhas_acesso_absent)
next
  case (Some l)
  then show ?thesis
    by (simp add: linhas_acesso_found guarda_tokens_cabem)
qed

lemma linhas_acesso_fault:
  "linha_de path ls = Some l \<Longrightarrow> \<not> cabem 5 (copiados path l) \<Longrightarrow>
   \<exists>f. linhas_acesso ident path en False ls acesso = Inl f"
  using guarda_tokens_not_cabem [of 5 "copiados path l" path acesso]
  by (auto simp: linhas_acesso_found)

lemma verifica_acesso_granted:
  "verifica_acesso arq en acesso ident path = Inr 1 \<longleftrightarrow> autorizado arq acesso ident path"
proof (cases arq)
  case (Inl e)
  then show ?thesis by (simp add: verifica_acesso_def autorizado_def)
next
  case (Inr content)
  show ?thesis
  proof (cases "linha_de path (fgets_all content)")
    case None
    with Inr show ?thesis
      by (simp add: verifica_acesso_def autorizado_def linhas_acesso_cases)
  next
    case (Some l)
    show ?thesis
    proof (cases "cabem 5 (copiados path l)")
      case True
      with Inr Some show ?thesis
        by (simp add: verifica_acesso_def autorizado_def linhas_acesso_cases)
    next
      case False
      from linhas_acesso_fault [OF Some False, of ident en acesso]
      obtain f where "linhas_acesso ident path en False (fgets_all content) acesso = Inl f"
        by blast
      with Inr Some False show ?thesis
        by (simp add: verifica_acesso_def autorizado_def)
    qed
  qed
qed

lemma linhas_credenciais_absent:
  "\<forall>l \<in> set ls. \<not> tem_token u l \<Longrightarrow>
   linhas_credenciais (Some u) mp en False ls cred = Inr (0, cred)"
  by (induction ls) (auto simp: tem_token_def guarda_tokens_absent)

lemma linhas_credenciais_found:
  "linha_de u ls = Some l \<Longrightarrow>
   linhas_credenciais (Some u) (Some p) en False ls cred =
   (case guarda_tokens 4 (Some u) (copiados u l) True 0 cred of
      Inl f \<Rightarrow> Inl f
    | Inr (g, cred') \<Rightarrow> if cred' 1 = p then Inr (1, cred') else Inr (- int en, cred'))"
proof (induction ls)
  case Nil
  then show ?case by (simp add: linha_de_def)
next
  case (Cons a ls)
  show ?case
  proof (cases "tem_token u a")
    case True
    with Cons.prems have "a = l" by (simp add: linha_de_def)
    from True have "u \<in> set (strtok_all comma (c_str a))"
      by (simp add: tem_token_def)
    from guarda_tokens_first [OF this] \<open>a = l\<close> show ?thesis
      by (auto simp: copiados_def split: sum.splits prod.splits dest: guarda_tokens_True)
  next
    case False
    with Cons.prems have "linha_de u ls = Some l" by (simp add: linha_de_def)
    from False have "u \<notin> set (strtok_all comma (c_str a))"
      by (simp add: tem_token_def)
    with Cons.IH [OF \<open>linha_de u ls = Some l\<close>] show ?thesis
      by (simp add: guarda_tokens_absent)
  qed
qed

lemma linhas_credenciais_fault:
  "linha_de u ls = Some l \<Longrightarrow> \<not> cabem 4 (copiados u l) \<Longrightarrow>
   \<exists>f. linhas_credenciais (Some u) (Some p) en False ls cred = Inl f"
  using guarda_tokens_not_cabem [of 4 "copiados u l" u cred]
  by (auto simp: linhas_credenciais_found)

lemma verifica_credenciais_cases:
  "verifica_credenciais (Inr content) en cred (Some u) (Some p) =
     (case linha_de u (fgets_all content) of
        None \<Rightarrow> Inr (0, cred)
      | Some l \<Rightarrow>
          if cabem 4 (copiados u l)
          then Inr (if preenche cred 0 (copiados u l) 1 = p then 1 else - int en,
                    preenche cred 0 (copiados u l))
          else verifica_credenciais (Inr content) en cred (Some u) (Some p))"
proof (cases "linha_de u (fgets_all content)")
  case None
  then have "\<forall>l \<in> set (fgets_all content). \<not> tem_token u l" by (simp add: linha_de_None)
  with None show ?thesis by (simp add: verifica_credenciais_def linhas_credenciais_absent)
next
  case (Some l)
  then show ?thesis
    by (simp add: verifica_credenciais_def linhas_credenciais_found guarda_tokens_cabem)
qed

lemma verifica_credenciais_authenticated:
  "verifica_credenciais arq en cred (Some u) (Some p) = Inr (1, cred') \<longleftrightarrow>
   registo_de arq cred u = Some cred' \<and> cred' 1 = p"
proof (cases arq)
  case (Inl e)
  then show ?thesis by (simp add: verifica_credenciais_def registo_de_def)
next
  case (Inr content)
  show ?thesis
  proof (cases "linha_de u (fgets_all content)")
    case None
    with Inr show ?thesis
      using verifica_credenciais_cases [of content en cred u p]
      by (simp add: registo_de_def)
  next
    case (Some l)
    show ?thesis
    proof (cases "cabem 4 (copiados u l)")
      case True
      with Inr Some show ?thesis
        using verifica_credenciais_cases [of content en cred u p]
        by (auto simp: registo_de_def)
    next
      case False
      from linhas_credenciais_fault [OF Some False, of p en cred]
      obtain f where "linhas_credenciais (Some u) (Some p) en False (fgets_all content) cred = Inl f"
        by blast
      with Inr Some False show ?thesis
        by (simp add: verifica_credenciais_def registo_de_def)
    qed
  qed
qed

text \<open>The definitions unfolded to run the stores on concrete contents.\<close>

lemma guarda_tokens_None:
  "guarda_tokens n None ts g i dest = (if ts = [] then Inr (g, dest) else Inl NullPointer)"
  by (cases ts) simp_all

lemma linhas_credenciais_1:
  "linhas_credenciais mu mp en False ls cred = Inr (1, c) \<Longrightarrow>
   (\<exists>u. mu = Some u) \<and> (\<exists>p. mp = Some p)"
proof (induction ls arbitrary: cred)
  case Nil
  then show ?case by simp
next
  case (Cons a ls)
  show ?case
  proof (cases mu)
    case None
    with Cons show ?thesis
      by (auto simp: guarda_tokens_None split: if_splits)
  next
    case (Some u)
    with Cons show ?thesis
      by (cases mp) (auto split: sum.splits prod.splits if_splits)
  qed
qed

lemma verifica_credenciais_1:
  "verifica_credenciais arq en cred mu mp = Inr (1, c) \<Longrightarrow>
   (\<exists>u. mu = Some u) \<and> (\<exists>p. mp = Some p)"
  by (cases arq) (auto simp: verifica_credenciais_def dest: linhas_credenciais_1)

lemmas avalia =
  fgets_all_def strtok_all_def strtok_first_def c_str_def tem_token_def copiados_def
  linha_de_def cabem_def token_ok_def preenche_def procura_id_def vazio_def
  spec_fields_def bem_formado_def

section \<open>The credential lookup\<close>

text \<open>
  C4, as the specification states it, fails: with the single line \<^verbatim>\<open>alice,pw,addr,7\<close>
  in the credential file, the lookup of username \<^verbatim>\<open>pw\<close> with password \<^verbatim>\<open>addr\<close> returns
  1 and the record \<^verbatim>\<open>pw\<close>, \<^verbatim>\<open>addr\<close>, \<^verbatim>\<open>7\<close> with the newline (row 3 is not written),
  although field 0 of no line is \<^verbatim>\<open>pw\<close>.
\<close>

theorem verifica_credenciais_not_field0:
  "resultado (verifica_credenciais (Inr cred_alice) 0 vazio (Some ''pw'') (Some ''addr'')) =
     Inr (1, [''pw'', ''addr'', ''7'' @ [nl], []]) \<and>
   \<not> spec_lookup_found cred_alice ''pw''"
  by (simp add: resultado_def verifica_credenciais_def cred_alice_def
        spec_lookup_found_def avalia)

text \<open>
  C4, amended.  For a credential file that opens, and a username and password that are
  not NULL: when no token of any line equals the username byte for byte, the lookup
  returns 0 and leaves the array as it was.  Otherwise it stops at the first line that
  has such a token; when the tokens of that line from the first one equal to the
  username onwards fit the four rows, they are the record returned, in rows 0 onwards,
  the rows beyond them keeping what they held; the value returned is 1 when row 1 is the
  password and \<open>-errno\<close> otherwise.  Tokens are the non-empty runs between commas, with
  no trimming; the last one keeps the newline of the line.
\<close>

theorem verifica_credenciais_first_token_line:
  "((\<forall>l \<in> set (fgets_all content'). u \<notin> set (strtok_all comma (c_str l))) \<longrightarrow>
      verifica_credenciais (Inr content') en cred (Some u) (Some p) = Inr (0, cred)) \<and>
   (i < length (fgets_all content) \<and>
    u \<in> set (strtok_all comma (c_str (fgets_all content ! i))) \<and>
    (\<forall>j<i. u \<notin> set (strtok_all comma (c_str (fgets_all content ! j)))) \<and>
    cabem 4 (copiados u (fgets_all content ! i)) \<longrightarrow>
      verifica_credenciais (Inr content) en cred (Some u) (Some p) =
        Inr (if preenche cred 0 (copiados u (fgets_all content ! i)) 1 = p then 1 else - int en,
             preenche cred 0 (copiados u (fgets_all content ! i))))"
proof (intro conjI impI)
  assume "\<forall>l \<in> set (fgets_all content'). u \<notin> set (strtok_all comma (c_str l))"
  then have "linha_de u (fgets_all content') = None"
    by (simp add: linha_de_None tem_token_def)
  then show "verifica_credenciais (Inr content') en cred (Some u) (Some p) = Inr (0, cred)"
    using verifica_credenciais_cases [of content' en cred u p] by simp
next
  assume h: "i < length (fgets_all content) \<and>
    u \<in> set (strtok_all comma (c_str (fgets_all content ! i))) \<and>
    (\<forall>j<i. u \<notin> set (strtok_all comma (c_str (fgets_all content ! j)))) \<and>
    cabem 4 (copiados u (fgets_all content ! i))"
  then have "linha_de u (fgets_all content) = Some (fgets_all content ! i)"
    by (intro linha_de_first) (simp_all add: tem_token_def)
  with h show "verifica_credenciais (Inr content) en cred (Some u) (Some p) =
        Inr (if preenche cred 0 (copiados u (fgets_all content ! i)) 1 = p then 1 else - int en,
             preenche cred 0 (copiados u (fgets_all content ! i)))"
    using verifica_credenciais_cases [of content en cred u p] by simp
qed

theorem verifica_credenciais_first_token_line_witness:
  "\<not> list_ex (\<lambda>l. ''alice'' \<in> set (strtok_all comma (c_str l))) (fgets_all cred_quase) \<and>
   verifica_credenciais (Inr cred_quase) 13 vazio (Some ''alice'') (Some ''pw'') = Inr (0, vazio) \<and>
   copiados ''alice'' (fgets_all cred_tres ! 1) = [''alice'', ''pw'', ''addr'', ''7'' @ [nl]] \<and>
   resultado (verifica_credenciais (Inr cred_tres) 13 vazio (Some ''alice'') (Some ''pw'')) =
     Inr (1, [''alice'', ''pw'', ''addr'', ''7'' @ [nl]])"
proof -
  have h1: "\<forall>l \<in> set (fgets_all cred_quase). ''alice'' \<notin> set (strtok_all comma (c_str l))"
    by (simp add: cred_quase_def avalia)
  have h2: "(1::nat) < length (fgets_all cred_tres) \<and>
    ''alice'' \<in> set (strtok_all comma (c_str (fgets_all cred_tres ! 1))) \<and>
    (\<forall>j<1. ''alice'' \<notin> set (strtok_all comma (c_str (fgets_all cred_tres ! j)))) \<and>
    cabem 4 (copiados ''alice'' (fgets_all cred_tres ! 1))"
    by (simp add: cred_tres_def avalia)
  have h3: "copiados ''alice'' (fgets_all cred_tres ! 1) = [''alice'', ''pw'', ''addr'', ''7'' @ [nl]]"
    by (simp add: cred_tres_def avalia)
  from verifica_credenciais_first_token_line
         [of cred_quase "''alice''" 13 vazio "''pw''" 1 cred_tres] h1 h2 h3
  show ?thesis
    by (simp add: resultado_def preenche_def list_ex_iff)
qed

section \<open>The permission lookup\<close>

text \<open>
  C5, as the specification states it, fails.  With the two lines \<^verbatim>\<open>/m/x,7\<close> and
  \<^verbatim>\<open>/m/x,8\<close> a line with the path in field 0 lists user-id \<^verbatim>\<open>8\<close>, yet the call stops
  at the first line and returns \<open>-errno\<close>, here -13; a file that cannot be opened with
  \<^verbatim>\<open>errno\<close> 13 returns the same -13; and with the line \<^verbatim>\<open>/m/y,/m/x,7\<close> the call returns
  1 for \<^verbatim>\<open>/m/x\<close> and \<^verbatim>\<open>7\<close> although no line has \<^verbatim>\<open>/m/x\<close> in field 0.
\<close>

theorem verifica_acesso_not_spec:
  "spec_authorize perm_duas_linhas ''/m/x'' ''8'' \<and>
   verifica_acesso (Inr perm_duas_linhas) 13 vazio ''8'' ''/m/x'' = Inr (- 13) \<and>
   verifica_acesso (Inl 13) 13 vazio ''8'' ''/m/x'' = Inr (- 13) \<and>
   verifica_acesso (Inr perm_segundo_campo) 13 vazio ''7'' ''/m/x'' = Inr 1 \<and>
   \<not> spec_authorize perm_segundo_campo ''/m/x'' ''7''"
  by (simp add: verifica_acesso_def perm_duas_linhas_def perm_segundo_campo_def
        spec_authorize_def avalia)

text \<open>
  C5, amended.  \<open>verifica_acesso\<close> returns 1 exactly when the permission file opens, some
  line has a token equal to the path, and in the first such line the tokens from the
  first one equal to the path onwards fit the five rows and the user-id is the content
  of one of the five rows after the copy: one of those tokens, or what a row the copy
  did not reach held before the call.  It returns the negated \<^verbatim>\<open>errno\<close> of \<^verbatim>\<open>fopen\<close> when
  the file does not open, 0 when no line has a token equal to the path, and \<open>-errno\<close>
  when the first such line fits and no row is the user-id; as values, the last and the
  first of these are not told apart.
\<close>

theorem verifica_acesso_outcomes:
  "(verifica_acesso arq en acesso ident path = Inr 1 \<longleftrightarrow> autorizado arq acesso ident path) \<and>
   verifica_acesso (Inl e) en acesso ident path = Inr (- int e) \<and>
   ((\<forall>l \<in> set (fgets_all content'). path \<notin> set (strtok_all comma (c_str l))) \<longrightarrow>
      verifica_acesso (Inr content') en acesso ident path = Inr 0) \<and>
   (i < length (fgets_all content) \<and>
    path \<in> set (strtok_all comma (c_str (fgets_all content ! i))) \<and>
    (\<forall>j<i. path \<notin> set (strtok_all comma (c_str (fgets_all content ! j)))) \<and>
    cabem 5 (copiados path (fgets_all content ! i)) \<longrightarrow>
      verifica_acesso (Inr content) en acesso ident path =
        Inr (if procura_id (preenche acesso 0 (copiados path (fgets_all content ! i))) ident
             then 1 else - int en))"
proof (intro conjI impI)
  show "verifica_acesso arq en acesso ident path = Inr 1 \<longleftrightarrow> autorizado arq acesso ident path"
    by (rule verifica_acesso_granted)
next
  show "verifica_acesso (Inl e) en acesso ident path = Inr (- int e)"
    by (simp add: verifica_acesso_def)
next
  assume "\<forall>l \<in> set (fgets_all content'). path \<notin> set (strtok_all comma (c_str l))"
  then have "linha_de path (fgets_all content') = None"
    by (simp add: linha_de_None tem_token_def)
  then show "verifica_acesso (Inr content') en acesso ident path = Inr 0"
    using linhas_acesso_cases [of ident path en "fgets_all content'" acesso]
    by (simp add: verifica_acesso_def)
next
  assume h: "i < length (fgets_all content) \<and>
    path \<in> set (strtok_all comma (c_str (fgets_all content ! i))) \<and>
    (\<forall>j<i. path \<notin> set (strtok_all comma (c_str (fgets_all content ! j)))) \<and>
    cabem 5 (copiados path (fgets_all content ! i))"
  then have "linha_de path (fgets_all content) = Some (fgets_all content ! i)"
    by (intro linha_de_first) (simp_all add: tem_token_def)
  with h show "verifica_acesso (Inr content) en acesso ident path =
        Inr (if procura_id (preenche acesso 0 (copiados path (fgets_all content ! i))) ident
             then 1 else - int en)"
    using linhas_acesso_cases [of ident path en "fgets_all content" acesso]
    by (simp add: verifica_acesso_def)
qed

theorem verifica_acesso_outcomes_witness:
  "autorizado (Inr perm_mx) vazio (''7'' @ [nl]) ''/m/x'' \<and>
   verifica_acesso (Inr perm_mx) 13 vazio (''7'' @ [nl]) ''/m/x'' = Inr 1 \<and>
   verifica_acesso (Inl 2) 13 vazio (''7'' @ [nl]) ''/m/x'' = Inr (- 2) \<and>
   \<not> list_ex (\<lambda>l. ''/m/x'' \<in> set (strtok_all comma (c_str l))) (fgets_all perm_my) \<and>
   verifica_acesso (Inr perm_my) 13 vazio (''7'' @ [nl]) ''/m/x'' = Inr 0 \<and>
   copiados ''/m/x'' (fgets_all perm_x9 ! 0) = [''/m/x'', ''9'' @ [nl]] \<and>
   verifica_acesso (Inr perm_x9) 13 vazio (''7'' @ [nl]) ''/m/x'' = Inr (- 13)"
proof -
  have h0: "autorizado (Inr perm_mx) vazio (''7'' @ [nl]) ''/m/x''"
    by (simp add: autorizado_def perm_mx_def avalia)
  have h1: "\<forall>l \<in> set (fgets_all perm_my). ''/m/x'' \<notin> set (strtok_all comma (c_str l))"
    by (simp add: perm_my_def avalia)
  have h2: "(0::nat) < length (fgets_all perm_x9) \<and>
    ''/m/x'' \<in> set (strtok_all comma (c_str (fgets_all perm_x9 ! 0))) \<and>
    (\<forall>j<0. ''/m/x'' \<notin> set (strtok_all comma (c_str (fgets_all perm_x9 ! j)))) \<and>
    cabem 5 (copiados ''/m/x'' (fgets_all perm_x9 ! 0))"
    by (simp add: perm_x9_def avalia)
  have h3: "copiados ''/m/x'' (fgets_all perm_x9 ! 0) = [''/m/x'', ''9'' @ [nl]]"
    by (simp add: perm_x9_def avalia)
  from verifica_acesso_outcomes
         [of "Inr perm_mx" 13 vazio "''7'' @ [nl]" "''/m/x''" 2 perm_my 0 perm_x9] h0 h1 h2 h3
  show ?thesis
    by (simp add: procura_id_def preenche_def vazio_def list_ex_iff)
qed



section \<open>The create path\<close>

text \<open>
  C9.  For every path, mode and flags, \<open>xmp_create\<close> calls the host open with the
  caller's flags and mode and nothing else: its only event is that call, there is no
  prompt, no lookup in either store and no one-time password; the descriptor returned
  becomes the handle; and the whole result depends on nothing of the world but the host
  open, whatever the stores and the prompts hold.
\<close>

theorem xmp_create_unmediated:
  "trace (xmp_create w path flags mode) = [HostOpen path flags (Some mode)] \<and>
   fh (xmp_create w path flags mode) =
     (if fst (sys_open w path flags (Some mode)) = - 1 then None
      else Some (word_of_int (fst (sys_open w path flags (Some mode))))) \<and>
   (sys_open w' = sys_open w \<longrightarrow>
      xmp_create w' path flags mode = xmp_create w path flags mode)"
  by (simp add: xmp_create_def split: prod.splits)

theorem xmp_create_unmediated_witness:
  "trace (xmp_create mundo_alice ''/m/novo'' 65 420) = [HostOpen ''/m/novo'' 65 (Some 420)] \<and>
   fh (xmp_create mundo_alice ''/m/novo'' 65 420) = Some 3 \<and>
   xmp_create (mundo_alice\<lparr>user_buf := [], cred_file := Inl 2, perm_file := Inl 2\<rparr>)
     ''/m/novo'' 65 420 = xmp_create mundo_alice ''/m/novo'' 65 420"
  using xmp_create_unmediated
    [of mundo_alice "''/m/novo''" 65 420
        "mundo_alice\<lparr>user_buf := [], cred_file := Inl 2, perm_file := Inl 2\<rparr>"]
  by (simp add: mundo_alice_def abre_3_def)

section \<open>The mediator\<close>

lemmas avalia_open =
  xmp_open_def segundo_fator_def abre_def monta_comando_def strcat_c_def bind_fault_def
  string_alloc_def gera_password_def sizeof_char_ptr_def sms_command_def credential_path_def
  verifica_credenciais_def verifica_acesso_def mundo_alice_def rand_zero_def abre_3_def
  cred_alice_def perm_mx_def lookup_cred_def lookup_perm_def autenticado_de_def

lemma charset_0: "charset ! 0 = CHR ''a''"
  by (simp add: charset_def)

lemma upt_6: "[0..<6] = [0, 1, 2, 3, 4, 5]"
  by (simp add: upt_rec)

lemma charset_alfanumerico: "list_all alfanumerico charset"
  by (simp add: charset_def alfanumerico_def)

lemma gera_password_7:
  "length (gera_password rnd str 7) = 6 \<and> set (gera_password rnd str 7) \<subseteq> set charset"
proof -
  have len: "8 \<le> length charset" by (simp add: charset_def)
  have "charset ! (rnd n mod sizeof_char_ptr) \<in> set charset" for n
  proof -
    have "rnd n mod sizeof_char_ptr < 8" by (simp add: sizeof_char_ptr_def)
    with len show ?thesis by (intro nth_mem) linarith
  qed
  then show ?thesis by (auto simp: gera_password_def)
qed

lemma trace_abre: "trace (abre w path flags t) = t @ [HostOpen path flags None]"
  by (simp add: abre_def Let_def split: prod.splits)

lemma segundo_fator_GeraSenha:
  "GeraSenha s \<in> set (trace (segundo_fator w path flags mu cred t)) \<Longrightarrow>
   GeraSenha s \<in> set t \<or> (\<exists>blk. s = gera_password (rand_seq w) blk 7)"
  by (auto simp: segundo_fator_def Let_def trace_abre string_alloc_def
           split: option.splits sum.splits if_splits)

lemma segundo_fator_fh:
  assumes "fh (segundo_fator w path flags mu cred t) = Some h"
  shows "\<exists>s. string_alloc (rand_seq w) (senha_block w) 7 = Some s \<and>
             strtok_first nl (recebida_buf w) = Some s \<and>
             (path = credential_path \<longrightarrow> mu = Some ''root'') \<and>
             GeraSenha s \<in> set (trace (segundo_fator w path flags mu cred t)) \<and>
             HostOpen path flags None \<in> set (trace (segundo_fator w path flags mu cred t))"
  using assms
  by (auto simp: segundo_fator_def Let_def trace_abre
           split: option.splits sum.splits if_splits)

lemma xmp_open_fh:
  assumes "fh (xmp_open w path flags) = Some h"
  shows "\<exists>cred. lookup_cred w = Inr (1, cred) \<and>
           verifica_acesso (perm_file w) (errno_perm w) (acesso0 w) (cred 3) path = Inr 1 \<and>
           xmp_open w path flags =
             segundo_fator w path flags (strtok_first nl (user_buf w)) cred
               [PromptUsername, PromptPassword, CredLookup, PermLookup]"
  using assms
  by (auto simp: xmp_open_def lookup_cred_def Let_def
           split: sum.splits prod.splits if_splits)

text \<open>
  C1, as the specification states it, fails.  In the first call the stores are those of
  the first scenario and the user types \<^verbatim>\<open>pw\<close> as username and \<^verbatim>\<open>addr\<close> as password:
  the open goes through to the host and binds descriptor 3, and the store has no record
  of a user \<^verbatim>\<open>pw\<close> (row 3 of the credential array and rows 2 to 4 of the permission
  array are not written in this call; they hold empty strings).  In the second call
  every row used is written: the credential file is the line \<^verbatim>\<open>bob,alice,pw,addr,7\<close>,
  the user types \<^verbatim>\<open>alice\<close> and \<^verbatim>\<open>pw\<close>, and the open succeeds without a record of
  \<^verbatim>\<open>alice\<close>.  In the third the permission file is the line \<^verbatim>\<open>/m/y,/m/x,7\<close>:
  \<^verbatim>\<open>alice\<close> opens \<^verbatim>\<open>/m/x\<close>, for which the store has no record and so lists no
  user-id, with or without the newline the code keeps on it.
\<close>

theorem xmp_open_without_record:
  "fh (xmp_open mundo_pw_addr ''/m/x'' 0) = Some 3 \<and>
   ret (xmp_open mundo_pw_addr ''/m/x'' 0) = Inr 0 \<and>
   strtok_first nl (user_buf mundo_pw_addr) = Some ''pw'' \<and>
   strtok_first nl (pass_buf mundo_pw_addr) = Some ''addr'' \<and>
   cred_file mundo_pw_addr = Inr cred_alice \<and>
   \<not> spec_credential cred_alice ''pw'' ''addr'' \<and>
   fh (xmp_open mundo_bob_alice ''/m/x'' 0) = Some 3 \<and>
   ret (xmp_open mundo_bob_alice ''/m/x'' 0) = Inr 0 \<and>
   strtok_first nl (user_buf mundo_bob_alice) = Some ''alice'' \<and>
   strtok_first nl (pass_buf mundo_bob_alice) = Some ''pw'' \<and>
   cred_file mundo_bob_alice = Inr cred_bob_alice \<and>
   \<not> spec_credential cred_bob_alice ''alice'' ''pw'' \<and>
   fh (xmp_open mundo_my_mx ''/m/x'' 0) = Some 3 \<and>
   ret (xmp_open mundo_my_mx ''/m/x'' 0) = Inr 0 \<and>
   perm_file mundo_my_mx = Inr perm_my_mx \<and>
   \<not> spec_authorize perm_my_mx ''/m/x'' ''7'' \<and>
   \<not> spec_authorize perm_my_mx ''/m/x'' (''7'' @ [nl])"
  by (simp add: mundo_pw_addr_def mundo_bob_alice_def cred_bob_alice_def spec_credential_def
        mundo_my_mx_def perm_my_mx_def spec_authorize_def
        avalia_open avalia Let_def charset_0 upt_6)

text \<open>
  C1, amended.  A call of \<open>xmp_open\<close> for path \<open>P\<close> binds a handle (the host open was
  reached and returned a descriptor) only if: the username \<open>u\<close> and password \<open>p\<close> typed
  are not NULL; (a) the credential file opens, the first of its lines with a token equal
  to \<open>u\<close> yields, from that token onwards, a record that fits the four rows, and row 1
  of the record is \<open>p\<close>; (b) the permission file opens, the first of its lines with a
  token equal to \<open>P\<close> fits the five rows, and row 3 of the record is the content of one
  of the five rows after the copy; (c) the answer typed to the last prompt is the
  password generated in this same call; (d) if \<open>P\<close> is the credential file, \<open>u\<close> is
  \<^verbatim>\<open>root\<close>.
\<close>

theorem xmp_open_success_only_if:
  assumes "fh (xmp_open w path flags) = Some h"
  shows "\<exists>u p cred s.
           strtok_first nl (user_buf w) = Some u \<and>
           strtok_first nl (pass_buf w) = Some p \<and>
           registo_de (cred_file w) (credenciais0 w) u = Some cred \<and> cred 1 = p \<and>
           autorizado (perm_file w) (acesso0 w) (cred 3) path \<and>
           string_alloc (rand_seq w) (senha_block w) 7 = Some s \<and>
           GeraSenha s \<in> set (trace (xmp_open w path flags)) \<and>
           strtok_first nl (recebida_buf w) = Some s \<and>
           (path = credential_path \<longrightarrow> u = ''root'')"
proof -
  from xmp_open_fh [OF assms] obtain cred where
    lc: "lookup_cred w = Inr (1, cred)" and
    va: "verifica_acesso (perm_file w) (errno_perm w) (acesso0 w) (cred 3) path = Inr 1" and
    eq: "xmp_open w path flags =
           segundo_fator w path flags (strtok_first nl (user_buf w)) cred
             [PromptUsername, PromptPassword, CredLookup, PermLookup]"
    by blast
  from lc obtain u p where u: "strtok_first nl (user_buf w) = Some u"
    and p: "strtok_first nl (pass_buf w) = Some p"
    using verifica_credenciais_1 [of "cred_file w" "errno_cred w" "credenciais0 w"
        "strtok_first nl (user_buf w)" "strtok_first nl (pass_buf w)" cred]
    by (auto simp: lookup_cred_def)
  from lc u p have "registo_de (cred_file w) (credenciais0 w) u = Some cred \<and> cred 1 = p"
    by (simp add: lookup_cred_def verifica_credenciais_authenticated)
  moreover from va have "autorizado (perm_file w) (acesso0 w) (cred 3) path"
    by (simp add: verifica_acesso_granted)
  moreover from assms eq segundo_fator_fh [of w path flags "strtok_first nl (user_buf w)" cred
      "[PromptUsername, PromptPassword, CredLookup, PermLookup]" h]
  obtain s where "string_alloc (rand_seq w) (senha_block w) 7 = Some s"
    "strtok_first nl (recebida_buf w) = Some s"
    "path = credential_path \<longrightarrow> strtok_first nl (user_buf w) = Some ''root''"
    "GeraSenha s \<in> set (trace (xmp_open w path flags))"
    by auto
  ultimately show ?thesis using u p by auto
qed

theorem xmp_open_success_only_if_witness:
  "fh (xmp_open mundo_alice ''/m/x'' 0) = Some 3 \<and>
   (\<exists>u p cred s.
      strtok_first nl (user_buf mundo_alice) = Some u \<and>
      strtok_first nl (pass_buf mundo_alice) = Some p \<and>
      registo_de (cred_file mundo_alice) (credenciais0 mundo_alice) u = Some cred \<and>
      cred 1 = p \<and>
      autorizado (perm_file mundo_alice) (acesso0 mundo_alice) (cred 3) ''/m/x'' \<and>
      string_alloc (rand_seq mundo_alice) (senha_block mundo_alice) 7 = Some s \<and>
      GeraSenha s \<in> set (trace (xmp_open mundo_alice ''/m/x'' 0)) \<and>
      strtok_first nl (recebida_buf mundo_alice) = Some s \<and>
      (''/m/x'' = credential_path \<longrightarrow> u = ''root''))"
proof -
  have h: "fh (xmp_open mundo_alice ''/m/x'' 0) = Some 3"
    by (simp add: avalia_open avalia Let_def charset_0 upt_6)
  from h xmp_open_success_only_if [OF h] show ?thesis by simp
qed

text \<open>
  C2, as the specification states it, fails.  The permission file is the single line
  \<^verbatim>\<open>/m/y,/m/x,7\<close>: no record has \<^verbatim>\<open>/m/x\<close> in field 0, so the path is absent from the
  store and no user-id is listed for it, with or without the newline the code keeps;
  yet when \<^verbatim>\<open>alice\<close> opens \<^verbatim>\<open>/m/x\<close> the password \<^verbatim>\<open>aaaaaa\<close> is generated and the
  delivery command is run.
\<close>

theorem xmp_open_otp_for_absent_path:
  "perm_file mundo_my_mx = Inr perm_my_mx \<and>
   \<not> spec_path_present perm_my_mx ''/m/x'' \<and>
   \<not> spec_authorize perm_my_mx ''/m/x'' ''7'' \<and>
   \<not> spec_authorize perm_my_mx ''/m/x'' (''7'' @ [nl]) \<and>
   GeraSenha ''aaaaaa'' \<in> set (trace (xmp_open mundo_my_mx ''/m/x'' 0)) \<and>
   Deliver (sms_command @ ''addr aaaaaa'') \<in> set (trace (xmp_open mundo_my_mx ''/m/x'' 0)) \<and>
   list_ex otp_event (trace (xmp_open mundo_my_mx ''/m/x'' 0))"
  by (simp add: mundo_my_mx_def perm_my_mx_def spec_authorize_def spec_path_present_def
        avalia_open avalia Let_def charset_0 upt_6)

text \<open>
  C2, amended.  In every call of \<open>xmp_open\<close> in which the permission lookup of the code
  does not return 1, no password is generated and no delivery command is run: nothing
  is generated or delivered before \<open>verifica_acesso\<close> has returned 1.  The lookup does
  not return 1 when the permission file does not open, when none of its \<^verbatim>\<open>fgets\<close>
  buffers holds a token equal to the path in any position, when the first buffer that
  does cannot be copied (more than five tokens from the path onwards, a token of 100
  bytes or more, or one that is not a valid format), when none of the five rows after
  the copy is row 3 of the credential array, or when the call does not get as far.
\<close>

theorem xmp_open_no_otp_when_denied:
  "(lookup_perm w path \<noteq> Some (Inr 1) \<longrightarrow>
      \<not> list_ex otp_event (trace (xmp_open w path flags))) \<and>
   ((case lookup_cred w of
       Inl f \<Rightarrow> True
     | Inr (autenticado, credenciais) \<Rightarrow>
         \<not> autorizado (perm_file w) (acesso0 w) (credenciais 3) path) \<longrightarrow>
      \<not> list_ex otp_event (trace (xmp_open w path flags)))"
proof (intro conjI impI)
  assume "lookup_perm w path \<noteq> Some (Inr 1)"
  then show "\<not> list_ex otp_event (trace (xmp_open w path flags))"
    by (auto simp: xmp_open_def lookup_perm_def lookup_cred_def Let_def
             split: sum.splits prod.splits if_splits)
next
  assume "case lookup_cred w of
       Inl f \<Rightarrow> True
     | Inr (autenticado, credenciais) \<Rightarrow>
         \<not> autorizado (perm_file w) (acesso0 w) (credenciais 3) path"
  then have "lookup_perm w path \<noteq> Some (Inr 1)"
    by (auto simp: lookup_perm_def verifica_acesso_granted split: sum.splits prod.splits)
  then show "\<not> list_ex otp_event (trace (xmp_open w path flags))"
    by (auto simp: xmp_open_def lookup_perm_def lookup_cred_def Let_def
             split: sum.splits prod.splits if_splits)
qed

theorem xmp_open_no_otp_when_denied_witness:
  "lookup_perm mundo_alice ''/m/y'' = Some (Inr 0) \<and>
   (case lookup_cred mundo_alice of
      Inl f \<Rightarrow> False
    | Inr (autenticado, credenciais) \<Rightarrow>
        credenciais 3 = ''7'' @ [nl] \<and>
        \<not> autorizado (perm_file mundo_alice) (acesso0 mundo_alice) (credenciais 3) ''/m/y'') \<and>
   \<not> list_ex otp_event (trace (xmp_open mundo_alice ''/m/y'' 0))"
proof -
  have h: "lookup_perm mundo_alice ''/m/y'' = Some (Inr 0)"
    by (simp add: avalia_open avalia Let_def)
  have k: "case lookup_cred mundo_alice of
      Inl f \<Rightarrow> False
    | Inr (autenticado, credenciais) \<Rightarrow>
        credenciais 3 = ''7'' @ [nl] \<and>
        \<not> autorizado (perm_file mundo_alice) (acesso0 mundo_alice) (credenciais 3) ''/m/y''"
    by (simp add: avalia_open avalia autorizado_def Let_def)
  from h have "lookup_perm mundo_alice ''/m/y'' \<noteq> Some (Inr 1)" by simp
  with h k xmp_open_no_otp_when_denied [of mundo_alice "''/m/y''" 0] show ?thesis by simp
qed

text \<open>
  C3, as the specification states it, fails: \<^verbatim>\<open>alice\<close> types a wrong password, the
  credential lookup returns 0, and the permission lookup is made all the same (and
  returns 1).  So it is when an unknown user leaves the password empty: the password
  pointer is NULL, the credential lookup returns 0 and the permission lookup is made.
\<close>

theorem xmp_open_consults_permissions_anyway:
  "autenticado_de mundo_senha_errada = Inr 0 \<and>
   lookup_perm mundo_senha_errada ''/m/x'' = Some (Inr 1) \<and>
   PermLookup \<in> set (trace (xmp_open mundo_senha_errada ''/m/x'' 0)) \<and>
   strtok_first nl (pass_buf mundo_sem_senha) = None \<and>
   autenticado_de mundo_sem_senha = Inr 0 \<and>
   PermLookup \<in> set (trace (xmp_open mundo_sem_senha ''/m/x'' 0))"
  by (simp add: mundo_senha_errada_def mundo_sem_senha_def avalia_open avalia Let_def)

text \<open>
  C3, amended.  In every call of \<open>xmp_open\<close> in which the credential lookup does not
  return 1 (the username is in no line, or the password is not the one stored, an empty
  password included; or the lookup dereferences a NULL pointer or overruns a row), the
  permission lookup is still made whenever the credential lookup returns, with
  whatever row 3 of the credential array holds, unless that row is not a valid format;
  the call then ends in one of the refusals: no password is generated or delivered, the
  host open is not called, no handle is bound, and the value returned, when the call
  completes, is \<open>-errno\<close>.
\<close>

theorem xmp_open_authentication_failure:
  assumes "autenticado_de w \<noteq> Inr 1"
  shows "\<not> list_ex otp_event (trace (xmp_open w path flags)) \<and>
         \<not> list_ex host_event (trace (xmp_open w path flags)) \<and>
         fh (xmp_open w path flags) = None \<and>
         (case ret (xmp_open w path flags) of
            Inl f \<Rightarrow> True | Inr v \<Rightarrow> v = - int (errno_deny w)) \<and>
         (PermLookup \<in> set (trace (xmp_open w path flags)) \<longleftrightarrow> lookup_perm w path \<noteq> None)"
  using assms
  by (auto simp: xmp_open_def lookup_perm_def lookup_cred_def autenticado_de_def Let_def
           split: sum.splits prod.splits if_splits)

theorem xmp_open_authentication_failure_witness:
  "autenticado_de mundo_senha_errada = Inr 0 \<and>
   \<not> list_ex otp_event (trace (xmp_open mundo_senha_errada ''/m/x'' 0)) \<and>
   \<not> list_ex host_event (trace (xmp_open mundo_senha_errada ''/m/x'' 0)) \<and>
   fh (xmp_open mundo_senha_errada ''/m/x'' 0) = None \<and>
   ret (xmp_open mundo_senha_errada ''/m/x'' 0) = Inr (- int (errno_deny mundo_senha_errada)) \<and>
   PermLookup \<in> set (trace (xmp_open mundo_senha_errada ''/m/x'' 0)) \<and>
   strtok_first nl (pass_buf mundo_sem_senha) = None \<and>
   autenticado_de mundo_sem_senha = Inr 0 \<and>
   \<not> list_ex otp_event (trace (xmp_open mundo_sem_senha ''/m/x'' 0)) \<and>
   \<not> list_ex host_event (trace (xmp_open mundo_sem_senha ''/m/x'' 0)) \<and>
   fh (xmp_open mundo_sem_senha ''/m/x'' 0) = None \<and>
   ret (xmp_open mundo_sem_senha ''/m/x'' 0) = Inr (- int (errno_deny mundo_sem_senha)) \<and>
   PermLookup \<in> set (trace (xmp_open mundo_sem_senha ''/m/x'' 0))"
proof -
  have h: "autenticado_de mundo_senha_errada = Inr 0"
    by (simp add: mundo_senha_errada_def avalia_open avalia Let_def)
  have r: "ret (xmp_open mundo_senha_errada ''/m/x'' 0) =
             Inr (- int (errno_deny mundo_senha_errada))"
    by (simp add: mundo_senha_errada_def avalia_open avalia Let_def)
  have l: "lookup_perm mundo_senha_errada ''/m/x'' = Some (Inr 1)"
    by (simp add: mundo_senha_errada_def avalia_open avalia Let_def)
  have n: "strtok_first nl (pass_buf mundo_sem_senha) = None"
    by (simp add: mundo_sem_senha_def avalia_open avalia)
  have h': "autenticado_de mundo_sem_senha = Inr 0"
    by (simp add: mundo_sem_senha_def avalia_open avalia Let_def)
  have r': "ret (xmp_open mundo_sem_senha ''/m/x'' 0) =
             Inr (- int (errno_deny mundo_sem_senha))"
    by (simp add: mundo_sem_senha_def avalia_open avalia Let_def)
  have l': "lookup_perm mundo_sem_senha ''/m/x'' \<noteq> None"
    by (simp add: mundo_sem_senha_def avalia_open avalia Let_def)
  from h have g: "autenticado_de mundo_senha_errada \<noteq> Inr 1" by simp
  from h' have g': "autenticado_de mundo_sem_senha \<noteq> Inr 1" by simp
  from h r l n h' r' l'
    xmp_open_authentication_failure [OF g, of "''/m/x''" 0]
    xmp_open_authentication_failure [OF g', of "''/m/x''" 0]
  show ?thesis by simp
qed

text \<open>
  C6, as the specification states it, fails: the password generated in the first
  scenario is \<^verbatim>\<open>aaaaaa\<close>, six characters.
\<close>

theorem senha_not_seven:
  "GeraSenha ''aaaaaa'' \<in> set (trace (xmp_open mundo_alice ''/m/x'' 0)) \<and>
   length ''aaaaaa'' \<noteq> (7::nat)"
  by (simp add: avalia_open avalia Let_def charset_0 upt_6)

text \<open>
  C6, amended.  Every password generated in a call of \<open>xmp_open\<close> is exactly 6
  characters long (the seventh byte asked of \<open>string_alloc\<close> is the terminator), each
  character taken from \<open>charset\<close>, whose characters are all letters or digits.
\<close>

theorem senha_six_chars:
  assumes "GeraSenha s \<in> set (trace (xmp_open w path flags))"
  shows "length s = 6 \<and> set s \<subseteq> set charset \<and> list_all alfanumerico s"
proof -
  from assms have "\<exists>blk. s = gera_password (rand_seq w) blk 7"
    by (auto simp: xmp_open_def Let_def split: sum.splits prod.splits if_splits
             dest!: segundo_fator_GeraSenha)
  then have "length s = 6" and sub: "set s \<subseteq> set charset"
    using gera_password_7 by blast+
  moreover from sub charset_alfanumerico have "list_all alfanumerico s"
    by (auto simp: list_all_iff)
  ultimately show ?thesis by simp
qed

theorem senha_six_chars_witness:
  "GeraSenha ''aaaaaa'' \<in> set (trace (xmp_open mundo_alice ''/m/x'' 0)) \<and>
   length ''aaaaaa'' = (6::nat) \<and> set ''aaaaaa'' \<subseteq> set charset \<and>
   list_all alfanumerico ''aaaaaa''"
proof -
  have h: "GeraSenha ''aaaaaa'' \<in> set (trace (xmp_open mundo_alice ''/m/x'' 0))"
    by (simp add: avalia_open avalia Let_def charset_0 upt_6)
  from h senha_six_chars [OF h] show ?thesis by simp
qed

text \<open>
  C7.  The refusals return \<open>-errno\<close> although no call has failed.  In the first scenario
  with a wrong password and \<^verbatim>\<open>errno\<close> at 0, the credential lookup returns 0, the host
  open is not called, no handle is bound, and the value returned to the kernel is 0,
  not a negative number.
\<close>

theorem xmp_open_denial_returns_zero:
  "autenticado_de mundo_senha_errada = Inr 0 \<and>
   errno_deny mundo_senha_errada = 0 \<and>
   \<not> list_ex host_event (trace (xmp_open mundo_senha_errada ''/m/x'' 0)) \<and>
   fh (xmp_open mundo_senha_errada ''/m/x'' 0) = None \<and>
   ret (xmp_open mundo_senha_errada ''/m/x'' 0) = Inr 0"
  by (simp add: mundo_senha_errada_def avalia_open avalia Let_def)

section \<open>The error convention of the passthrough operations\<close>

lemma fd_of_fh_word_of_int:
  assumes "0 \<le> fd" "fd < 2 ^ 31"
  shows "fd_of_fh (word_of_int fd) = fd"
proof -
  from assms have "fd < 2 ^ 64" by (simp add: order_less_trans [where y = "2 ^ 31"])
  with assms have u: "uint (word_of_int fd :: 64 word) = fd"
    by (simp add: uint_word_of_int)
  have "(ucast (word_of_int fd :: 64 word) :: 32 word) =
          word_of_int (uint (word_of_int fd :: 64 word))"
    by simp
  with u have "(ucast (word_of_int fd :: 64 word) :: 32 word) = word_of_int fd" by simp
  moreover from assms have "sint (word_of_int fd :: 32 word) = fd"
    by (simp add: sint_sbintrunc' signed_take_bit_int_eq_self)
  ultimately show ?thesis by (simp add: fd_of_fh_def)
qed

text \<open>
  C8, as the specification states it, fails.  \<open>xmp_release\<close>: when \<^verbatim>\<open>close\<close> returns -1 with
  \<^verbatim>\<open>errno\<close> 9, the operation returns 0 and not -9.  \<open>xmp_rename\<close> with a flag set returns
  \<^verbatim>\<open>-EINVAL\<close> (here -22) though no primitive has failed.  \<open>xmp_fallocate\<close> with a mode bit
  set returns \<^verbatim>\<open>-EOPNOTSUPP\<close> (here -95) in the same way, and otherwise the negated value
  of \<^verbatim>\<open>posix_fallocate\<close>, -28, where the rule on a result other than -1 gives 0.
  \<open>xmp_getxattr\<close> returns the size 5 of the attribute, not 0.
\<close>

theorem passthrough_convention_exceptions:
  "close_falha (fd_of_fh 3) = (- 1, 9) \<and>
   xmp_release 3 close_falha = 0 \<and>
   spec_convention (close_falha (fd_of_fh 3)) 0 = - 9 \<and>
   xmp_rename 22 1 (0, 0) = - 22 \<and>
   xmp_fallocate 95 1 (Some 3) (0, 0) 0 fallocate_28 = - 95 \<and>
   xmp_fallocate 95 0 (Some 3) (0, 0) 0 fallocate_28 = - 28 \<and>
   spec_convention (fallocate_28 3, 0) 0 = 0 \<and>
   xmp_getxattr (5, 0) = 5 \<and>
   spec_convention (0, 0) 0 = 0"
proof -
  have "fd_of_fh 3 = 3"
    using fd_of_fh_word_of_int [of 3] by simp
  then show ?thesis
    by (simp add: close_falha_def xmp_release_def spec_convention_def xmp_rename_def
          xmp_fallocate_def fallocate_28_def xmp_getxattr_def)
qed

text \<open>
  C8, amended.  Every passthrough operation returns the negated \<^verbatim>\<open>errno\<close> when the
  primitive it forwards to returns -1 and otherwise 0 (the number of bytes for read and
  write, the size reported for getxattr and listxattr), except that: release returns 0
  whatever \<^verbatim>\<open>close\<close> returns; rename with a flag set and fallocate with a mode bit set
  return \<^verbatim>\<open>-EINVAL\<close> and \<^verbatim>\<open>-EOPNOTSUPP\<close> and call nothing; fallocate otherwise returns
  the negated value of \<^verbatim>\<open>posix_fallocate\<close>; fsync calls nothing and returns 0.  The
  primitive is: for readdir \<^verbatim>\<open>opendir\<close>; for mknod \<^verbatim>\<open>open\<close> and then \<^verbatim>\<open>close\<close> on a regular
  file, \<^verbatim>\<open>mkfifo\<close> on a FIFO, \<^verbatim>\<open>mknod\<close> otherwise; for truncate \<^verbatim>\<open>ftruncate\<close> on the
  handle when there is one, else \<^verbatim>\<open>truncate\<close>; for read, write and fallocate without a
  handle \<^verbatim>\<open>open\<close> and then the transfer; with a handle bound from a descriptor between
  0 and \<open>2^31 - 1\<close> the transfer is on that descriptor.
\<close>

theorem passthrough_error_convention:
  "xmp_getattr r = spec_convention r 0 \<and>
   xmp_access r = spec_convention r 0 \<and>
   xmp_readlink r = spec_convention r 0 \<and>
   xmp_readdir (Inl e) cd = - int e \<and>
   xmp_readdir (Inr ()) cd = 0 \<and>
   xmp_mknod True isfifo op cl r1 r2 =
     (if 0 \<le> fst op then spec_convention (cl (fst op)) 0 else spec_convention op 0) \<and>
   xmp_mknod False True op cl r1 r2 = spec_convention r1 0 \<and>
   xmp_mknod False False op cl r1 r2 = spec_convention r2 0 \<and>
   xmp_mkdir r = spec_convention r 0 \<and>
   xmp_unlink r = spec_convention r 0 \<and>
   xmp_rmdir r = spec_convention r 0 \<and>
   xmp_symlink r = spec_convention r 0 \<and>
   xmp_rename einval 0 r = spec_convention r 0 \<and>
   xmp_link r = spec_convention r 0 \<and>
   xmp_chmod r = spec_convention r 0 \<and>
   xmp_chown r = spec_convention r 0 \<and>
   xmp_truncate None r ft = spec_convention r 0 \<and>
   xmp_truncate (Some h) r ft = spec_convention (ft (fd_of_fh h)) 0 \<and>
   xmp_utimens r = spec_convention r 0 \<and>
   ret (xmp_create w path flags mode) =
     Inr (spec_convention (sys_open w path flags (Some mode)) 0) \<and>
   xmp_read None op en io =
     (if fst op = - 1 then - int (snd op)
      else if fst (io (fst op)) = - 1 then - int (snd (io (fst op)))
      else fst (io (fst op))) \<and>
   (0 \<le> fd \<and> fd < 2 ^ 31 \<longrightarrow>
      xmp_read (Some (word_of_int fd)) op en io =
        (if fst (io fd) = - 1 then - int (snd (io fd)) else fst (io fd))) \<and>
   xmp_write fi op en io = xmp_read fi op en io \<and>
   xmp_statfs r = spec_convention r 0 \<and>
   xmp_fsync = 0 \<and>
   xmp_setxattr r = spec_convention r 0 \<and>
   xmp_getxattr r = spec_convention r (fst r) \<and>
   xmp_listxattr r = spec_convention r (fst r) \<and>
   xmp_removexattr r = spec_convention r 0 \<and>
   xmp_release h cl = 0 \<and>
   (rflags \<noteq> 0 \<longrightarrow> xmp_rename einval rflags r = - einval) \<and>
   (fmode \<noteq> 0 \<longrightarrow> xmp_fallocate eopnotsupp fmode fi op en pf = - eopnotsupp) \<and>
   xmp_fallocate eopnotsupp 0 None op en pf =
     (if fst op = - 1 then - int (snd op) else - pf (fst op)) \<and>
   (0 \<le> fd \<and> fd < 2 ^ 31 \<longrightarrow>
      xmp_fallocate eopnotsupp 0 (Some (word_of_int fd)) op en pf = - pf fd)"
proof -
  have simple:
    "xmp_getattr r = spec_convention r 0" "xmp_access r = spec_convention r 0"
    "xmp_readlink r = spec_convention r 0" "xmp_mkdir r = spec_convention r 0"
    "xmp_unlink r = spec_convention r 0" "xmp_rmdir r = spec_convention r 0"
    "xmp_symlink r = spec_convention r 0" "xmp_link r = spec_convention r 0"
    "xmp_chmod r = spec_convention r 0" "xmp_chown r = spec_convention r 0"
    "xmp_utimens r = spec_convention r 0" "xmp_statfs r = spec_convention r 0"
    "xmp_setxattr r = spec_convention r 0" "xmp_removexattr r = spec_convention r 0"
    "xmp_getxattr r = spec_convention r (fst r)" "xmp_listxattr r = spec_convention r (fst r)"
    by (simp_all add: xmp_getattr_def xmp_access_def xmp_readlink_def xmp_mkdir_def
          xmp_unlink_def xmp_rmdir_def xmp_symlink_def xmp_link_def xmp_chmod_def
          xmp_chown_def xmp_utimens_def xmp_statfs_def xmp_setxattr_def xmp_removexattr_def
          xmp_getxattr_def xmp_listxattr_def spec_convention_def split: prod.splits)
  have dir: "xmp_readdir (Inl e) cd = - int e" "xmp_readdir (Inr ()) cd = 0"
    by (simp_all add: xmp_readdir_def)
  have nod:
    "xmp_mknod True isfifo op cl r1 r2 =
       (if 0 \<le> fst op then spec_convention (cl (fst op)) 0 else spec_convention op 0)"
    "xmp_mknod False True op cl r1 r2 = spec_convention r1 0"
    "xmp_mknod False False op cl r1 r2 = spec_convention r2 0"
    by (simp_all add: xmp_mknod_def spec_convention_def split: prod.splits)
  have ren: "xmp_rename einval 0 r = spec_convention r 0"
    "rflags \<noteq> 0 \<longrightarrow> xmp_rename einval rflags r = - einval"
    by (simp_all add: xmp_rename_def spec_convention_def split: prod.splits)
  have tru: "xmp_truncate None r ft = spec_convention r 0"
    "xmp_truncate (Some h) r ft = spec_convention (ft (fd_of_fh h)) 0"
    by (simp_all add: xmp_truncate_def spec_convention_def split: prod.splits)
  have cre: "ret (xmp_create w path flags mode) =
     Inr (spec_convention (sys_open w path flags (Some mode)) 0)"
    by (simp add: xmp_create_def spec_convention_def Let_def split: prod.splits)
  have rd: "xmp_read None op en io =
     (if fst op = - 1 then - int (snd op)
      else if fst (io (fst op)) = - 1 then - int (snd (io (fst op)))
      else fst (io (fst op)))"
    "0 \<le> fd \<and> fd < 2 ^ 31 \<longrightarrow>
      xmp_read (Some (word_of_int fd)) op en io =
        (if fst (io fd) = - 1 then - int (snd (io fd)) else fst (io fd))"
    "xmp_write fi op en io = xmp_read fi op en io"
    by (auto simp: xmp_read_def xmp_write_def fd_of_fh_word_of_int split: prod.splits)
  have rest: "xmp_fsync = 0" "xmp_release h cl = 0"
    by (simp_all add: xmp_fsync_def xmp_release_def)
  have fal: "fmode \<noteq> 0 \<longrightarrow> xmp_fallocate eopnotsupp fmode fi op en pf = - eopnotsupp"
    "xmp_fallocate eopnotsupp 0 None op en pf =
       (if fst op = - 1 then - int (snd op) else - pf (fst op))"
    "0 \<le> fd \<and> fd < 2 ^ 31 \<longrightarrow>
       xmp_fallocate eopnotsupp 0 (Some (word_of_int fd)) op en pf = - pf fd"
    by (auto simp: xmp_fallocate_def fd_of_fh_word_of_int split: prod.splits)
  from simple dir nod ren tru cre rd rest fal show ?thesis by blast
qed

theorem passthrough_error_convention_witness:
  "xmp_getattr (- 1, 2) = - 2 \<and> xmp_access (- 1, 2) = - 2 \<and> xmp_mkdir (- 1, 2) = - 2 \<and>
   xmp_unlink (- 1, 2) = - 2 \<and> xmp_getxattr (- 1, 2) = - 2 \<and>
   xmp_read None (3, 0) 0 pread_5 = 5 \<and>
   xmp_read (Some 3) (3, 0) 0 pread_5 = 5 \<and>
   xmp_write (Some 3) (3, 0) 0 pread_5 = 5 \<and>
   xmp_release 3 close_falha = 0 \<and>
   xmp_rename 22 1 (- 1, 2) = - 22 \<and>
   xmp_rename 22 0 (- 1, 2) = - 2 \<and>
   xmp_fallocate 95 1 (Some 3) (3, 0) 0 fallocate_28 = - 95 \<and>
   xmp_fallocate 95 0 (Some 3) (3, 0) 0 fallocate_28 = - 28"
  using passthrough_error_convention
    [where r = "(- 1, 2)" and op = "(3, 0)" and en = 0 and io = pread_5 and fd = 3
       and fi = "Some 3" and h = 3 and cl = close_falha and einval = 22 and rflags = 1
       and eopnotsupp = 95 and fmode = 1 and pf = fallocate_28]
  by (simp add: spec_convention_def pread_5_def fallocate_28_def)

end
